theory Spec2Isabelle
  imports Main "HOL-Library.Sublist"
begin

section \<open>JavaScript strings and values\<close>

text \<open>
  Strings are \<open>char list\<close>s. \<open>s.startsWith(p)\<close> is \<open>prefix p s\<close>, \<open>s.endsWith(p)\<close>
  is \<open>suffix p s\<close> and \<open>s.includes(p)\<close> is \<open>sublist p s\<close>. A string is falsy exactly
  when it is empty; \<open>undefined\<close> is \<open>None\<close>.
\<close>

definition startsWith :: "string \<Rightarrow> string \<Rightarrow> bool" where
  "startsWith s p = prefix p s"

definition endsWith :: "string \<Rightarrow> string \<Rightarrow> bool" where
  "endsWith s p = suffix p s"

definition str_includes :: "string \<Rightarrow> string \<Rightarrow> bool" where
  "str_includes s p = sublist p s"

text \<open>\<open>xs.join(sep)\<close> on an array of strings.\<close>

fun join :: "string \<Rightarrow> string list \<Rightarrow> string" where
  "join sep [] = []"
| "join sep [x] = x"
| "join sep (x # y # ys) = x @ sep @ join sep (y # ys)"

text \<open>\<open>a || b\<close> on an optional string and on an optional number.\<close>

definition or_str :: "string option \<Rightarrow> string \<Rightarrow> string" where
  "or_str a b = (case a of None \<Rightarrow> b | Some s \<Rightarrow> if s = [] then b else s)"

definition or_num :: "int option \<Rightarrow> int \<Rightarrow> int" where
  "or_num a b = (case a of None \<Rightarrow> b | Some n \<Rightarrow> if n = 0 then b else n)"

definition truthy_str :: "string option \<Rightarrow> bool" where
  "truthy_str a = (case a of None \<Rightarrow> False | Some s \<Rightarrow> s \<noteq> [])"

text \<open>
  White space, as \<open>trim()\<close> and the regular expression \<open>\\s\<close> see it. A \<open>char\<close> is a
  code unit below 256, so of JavaScript's white space the model has the six ASCII
  characters and the no-break space U+00A0; the white space from U+1680 on is outside
  the type.
\<close>

definition is_space :: "char \<Rightarrow> bool" where
  "is_space c =
     (c \<in> set [CHR 0x20, CHR 0x09, CHR 0x0A, CHR 0x0B, CHR 0x0C, CHR 0x0D, CHR 0xA0])"

definition trim :: "string \<Rightarrow> string" where
  "trim s = rev (dropWhile is_space (rev (dropWhile is_space s)))"

text \<open>\<open>s.split('\\n')\<close>: the lines of a string (one empty line for the empty string).\<close>

fun split_lines :: "string \<Rightarrow> string list" where
  "split_lines [] = [[]]"
| "split_lines (c # cs) =
     (if c = CHR 0x0A then [] # split_lines cs
      else (case split_lines cs of l # ls \<Rightarrow> (c # l) # ls | [] \<Rightarrow> [[c]]))"

text \<open>\<open>toLowerCase()\<close> on the ASCII letters.\<close>

definition lower_char :: "char \<Rightarrow> char" where
  "lower_char c =
     (case map_of (zip ''ABCDEFGHIJKLMNOPQRSTUVWXYZ'' ''abcdefghijklmnopqrstuvwxyz'') c of
        Some d \<Rightarrow> d | None \<Rightarrow> c)"

definition toLowerCase :: "string \<Rightarrow> string" where
  "toLowerCase s = map lower_char s"

text \<open>
  A thrown value, as far as the providers look at it: whether it is an \<open>Error\<close>, the
  name of its class (\<open>error.name\<close>, which is \<open>Error\<close> for a plain \<open>Error\<close>; empty for a value
  that is no \<open>Error\<close>), its \<open>message\<close>, what \<open>String(error)\<close> gives, and the optional
  \<open>stdout\<close>, \<open>stderr\<close> and \<open>exitCode\<close> properties that \<open>BoxLiteProvider.exec\<close> reads from it.
\<close>

record thrown =
  is_Error :: bool
  error_name :: string
  message :: string
  to_string :: string
  t_stdout :: "string option"
  t_stderr :: "string option"
  t_exitCode :: "int option"

text \<open>\<open>new Error(msg)\<close>.\<close>

definition new_Error :: "string \<Rightarrow> thrown" where
  "new_Error msg =
     \<lparr>is_Error = True, error_name = ''Error'', message = msg,
      to_string = (if msg = [] then ''Error'' else ''Error: '' @ msg),
      t_stdout = None, t_stderr = None, t_exitCode = None\<rparr>"

text \<open>\<open>error instanceof Error ? error.message : String(error)\<close>.\<close>

definition error_text :: "thrown \<Rightarrow> string" where
  "error_text e = (if is_Error e then message e else to_string e)"

section \<open>The provider contract (core/sandbox/types.ts)\<close>

datatype isolation = Vm | Container | Process | NoIsolation

record SandboxCapabilities =
  supportsVolumeMounts :: bool
  supportsNetworking :: bool
  isolation :: isolation
  supportedRuntimes :: "string list"
  supportsPooling :: bool

record SandboxExecOptions =
  command :: string
  args :: "string list option"
  cwd :: "string option"
  env :: "(string \<times> string) list option"
  timeout :: "int option"
  image :: "string option"

text \<open>
  \<open>duration\<close> is \<open>Date.now() - startTime\<close>. The model has no clock of its own: a
  result of a child process carries the time of the event that resolved the promise, and
  a result that is made without waiting for a child, as well as every result of the
  BoxLite provider (whose runtime has no times in the model), carries 0. The optional
  \<open>provider\<close> member is never set by the providers and is left out.
\<close>

record SandboxExecResult =
  stdout :: string
  stderr :: string
  exitCode :: int
  duration :: nat

record ScriptOptions =
  so_args :: "string list option"
  so_env :: "(string \<times> string) list option"
  so_timeout :: "int option"
  packages :: "string list option"

record VolumeMount =
  hostPath :: string
  guestPath :: string
  readOnly :: "bool option"

text \<open>\<open>options?.packages\<close> and \<open>options?.args\<close>, an absent member read as empty.\<close>

definition packages_of :: "ScriptOptions option \<Rightarrow> string list" where
  "packages_of options =
     (case options of None \<Rightarrow> []
      | Some opt \<Rightarrow> (case packages opt of None \<Rightarrow> [] | Some xs \<Rightarrow> xs))"

definition argsStr_of :: "ScriptOptions option \<Rightarrow> string" where
  "argsStr_of options =
     (case options of None \<Rightarrow> []
      | Some opt \<Rightarrow> (case so_args opt of None \<Rightarrow> [] | Some xs \<Rightarrow> join '' '' xs))"

definition args_of :: "ScriptOptions option \<Rightarrow> string list" where
  "args_of options =
     (case options of None \<Rightarrow> []
      | Some opt \<Rightarrow> (case so_args opt of None \<Rightarrow> [] | Some xs \<Rightarrow> xs))"

section \<open>Plugin definition (core/sandbox/plugin.ts)\<close>

record SandboxProviderMetadata =
  m_type :: string
  m_name :: string
  m_version :: string
  m_description :: string
  m_builtin :: "bool option"
  m_isolation :: isolation
  m_supportedRuntimes :: "string list"
  m_supportsVolumeMounts :: bool
  m_supportsNetworking :: bool
  m_supportsPooling :: bool
  m_tags :: "string list option"

text \<open>
  The \<open>factory\<close> member is typed as a function, but \<open>defineSandboxPlugin\<close> tests it
  at run time, so the model keeps the case of a value that is not callable.
\<close>

datatype 'f js_member = JsFunction 'f | NotCallable

record 'f SandboxPlugin =
  metadata :: SandboxProviderMetadata
  factory :: "'f js_member"
  has_onInit :: bool
  has_onDestroy :: bool

definition defineSandboxPlugin :: "'f SandboxPlugin \<Rightarrow> thrown + 'f SandboxPlugin" where
  "defineSandboxPlugin plugin =
     (if m_type (metadata plugin) = [] then
        Inl (new_Error ''Sandbox plugin must have a type'')
      else if m_name (metadata plugin) = [] then
        Inl (new_Error ''Sandbox plugin must have a name'')
      else if factory plugin = NotCallable then
        Inl (new_Error ''Sandbox plugin must have a factory function'')
      else Inr plugin)"

text \<open>The base provider's \<open>detectRuntime\<close>: the text after the last dot of the whole path.\<close>

definition after_last_dot :: "string \<Rightarrow> string" where
  "after_last_dot s = rev (takeWhile (\<lambda>c. c \<noteq> CHR ''.'') (rev s))"

definition detectRuntime :: "string \<Rightarrow> string \<times> string" where
  "detectRuntime filePath =
     (let ext = toLowerCase (after_last_dot filePath) in
      if ext = ''py'' then (''python'', ''python:3.11-slim'')
      else if ext = ''ts'' \<or> ext = ''mts'' then (''bun'', ''oven/bun:latest'')
      else (''node'', ''node:18-alpine''))"

section \<open>The Node.js host\<close>

text \<open>
  The functions of Node's \<open>path\<close> module are library code and depend on the platform
  (\<open>path.win32\<close> or \<open>path.posix\<close>), so the providers take them from the host.
  \<open>posix_path\<close> below is the POSIX instance, for paths without repeated separators.
\<close>

record path_lib =
  p_join :: "string list \<Rightarrow> string"
  p_dirname :: "string \<Rightarrow> string"
  p_basename :: "string \<Rightarrow> string"
  p_extname :: "string \<Rightarrow> string"

definition strip_slashes :: "string \<Rightarrow> string" where
  "strip_slashes s = rev (dropWhile (\<lambda>c. c = CHR ''/'') (rev s))"

definition posix_basename :: "string \<Rightarrow> string" where
  "posix_basename s = rev (takeWhile (\<lambda>c. c \<noteq> CHR ''/'') (rev (strip_slashes s)))"

definition posix_extname :: "string \<Rightarrow> string" where
  "posix_extname s =
     (let b = posix_basename s;
          after = takeWhile (\<lambda>c. c \<noteq> CHR ''.'') (rev b);
          upto = dropWhile (\<lambda>c. c \<noteq> CHR ''.'') (rev b)
      in if upto = [] \<or> tl upto = [] \<or> b = ''..'' then [] else CHR ''.'' # rev after)"

definition posix_dirname :: "string \<Rightarrow> string" where
  "posix_dirname s =
     (let d = strip_slashes (rev (dropWhile (\<lambda>c. c \<noteq> CHR ''/'') (rev (strip_slashes s))))
      in if d \<noteq> [] then d else if startsWith s ''/'' then ''/'' else ''.'')"

text \<open>\<open>path.join\<close>: the parts joined by a separator, then \<open>.\<close> and \<open>..\<close> resolved.\<close>

fun split_on :: "char \<Rightarrow> string \<Rightarrow> string list" where
  "split_on d [] = [[]]"
| "split_on d (c # cs) =
     (if c = d then [] # split_on d cs
      else (case split_on d cs of l # ls \<Rightarrow> (c # l) # ls | [] \<Rightarrow> [[c]]))"

fun resolve_dots :: "bool \<Rightarrow> string list \<Rightarrow> string list \<Rightarrow> string list" where
  "resolve_dots ab acc [] = rev acc"
| "resolve_dots ab acc (seg # segs) =
     (if seg = [] \<or> seg = ''.'' then resolve_dots ab acc segs
      else if seg = ''..'' then
        (case acc of
           [] \<Rightarrow> resolve_dots ab (if ab then [] else [seg]) segs
         | seg0 # below \<Rightarrow>
             if seg0 = ''..'' then resolve_dots ab (seg # acc) segs
             else resolve_dots ab below segs)
      else resolve_dots ab (seg # acc) segs)"

definition posix_normalize :: "string \<Rightarrow> string" where
  "posix_normalize s =
     (if s = [] then ''.''
      else
        let ab = startsWith s ''/'';
            trailing = endsWith s ''/'';
            body = join ''/'' (resolve_dots ab [] (split_on CHR ''/'' s))
        in if body = [] then (if ab then ''/'' else if trailing then ''./'' else ''.'')
           else (if ab then ''/'' else []) @ body @ (if trailing then ''/'' else []))"

definition posix_join :: "string list \<Rightarrow> string" where
  "posix_join parts =
     (let joined = join ''/'' (filter (\<lambda>p. p \<noteq> []) parts)
      in if joined = [] then ''.'' else posix_normalize joined)"

definition posix_path :: path_lib where
  "posix_path = \<lparr>p_join = posix_join, p_dirname = posix_dirname,
                  p_basename = posix_basename, p_extname = posix_extname\<rparr>"

text \<open>
  A child process as its listeners see it. \<open>natural\<close> are the events it emits when it is
  left alone, each with its time in milliseconds after the call; \<open>on_sigterm\<close> are the
  events it emits once \<open>proc.kill('SIGTERM')\<close> has been called, each with its delay
  after the signal. A \<open>close\<close> event carries the exit code, which is \<open>null\<close> (\<open>None\<close>)
  when the process was ended by a signal. A process that never closes has no
  \<open>Close\<close> and no \<open>SpawnError\<close> event.
\<close>

text \<open>
  A failure to start the process reaches the providers in one of two ways. Node reports
  some failures later, as the \<open>error\<close> event (\<open>SpawnError\<close>) that the providers listen
  to; for the others, and for arguments it refuses, the call \<open>spawn(...)\<close> itself throws,
  and then there is no child at all: \<open>spawn\<close> of the host returns \<open>Inl\<close> of the thrown
  value. Logging with \<open>console\<close> is not part of the model.
\<close>

datatype proc_event =
    StdoutData string
  | StderrData string
  | Close "int option"
  | SpawnError string

record child =
  natural :: "(nat \<times> proc_event) list"
  on_sigterm :: "(nat \<times> proc_event) list"

record spawn_request =
  sp_file :: string
  sp_args :: "string list"
  sp_cwd :: string
  sp_env :: "string \<rightharpoonup> string"

datatype simplebox_impl = SimpleBoxDirect | SimpleBoxNpm

record native_module =
  has_JsBoxlite :: bool

record host =
  platform :: string
  arch :: string
  homedir :: string
  execPath :: string
  module_dirname :: string
  process_env :: "string \<rightharpoonup> string"
  process_cwd :: string
  existsSync :: "string \<Rightarrow> bool"
  execSync :: "string \<Rightarrow> string option \<Rightarrow> thrown + string"
  path :: path_lib
  spawn :: "spawn_request \<Rightarrow> thrown + child"
  require :: "string \<Rightarrow> thrown + native_module"
  import_boxlite :: "thrown + simplebox_impl option"

text \<open>
  A promise ends resolved, rejected (the caller sees a throw) or it stays pending for
  ever (the caller never gets an answer).
\<close>

datatype 'a promise = Resolved 'a | Rejected thrown | Pending

section \<open>The Codex CLI provider (extensions/sandbox/codex.ts)\<close>

definition getBundledCodexPath :: "host \<Rightarrow> string option" where
  "getBundledCodexPath h =
     (let os = platform h;
          ext = (if os = ''win32'' then ''.cmd'' else []);
          execDir = (if execPath h \<noteq> [] then p_dirname (path h) (execPath h) else []);
          possiblePaths =
            (if execDir \<noteq> [] then
               [p_join (path h) [execDir, ''codex'' @ ext]] @
               (if os = ''darwin'' then
                  [p_join (path h) [execDir, ''codex''],
                   p_join (path h) [execDir, ''..'', ''Resources'', ''codex-bundle'', ''node'']]
                else [])
             else []) @
            [p_join (path h) [module_dirname h, ''..'', ''..'', ''..'', ''dist'', ''codex'' @ ext],
             p_join (path h)
               [module_dirname h, ''..'', ''..'', ''..'', ''..'', ''dist'', ''codex'' @ ext]]
      in find (existsSync h) possiblePaths)"

text \<open>The \<open>which\<close>/\<open>where\<close> step of \<open>getCodexPath\<close>; a throwing \<open>execSync\<close> is caught.\<close>

definition which_codex :: "host \<Rightarrow> string option" where
  "which_codex h =
     (if platform h = ''win32'' then
        (case execSync h ''where codex'' None of
           Inl e \<Rightarrow> None
         | Inr out \<Rightarrow>
             (case split_lines (trim out) of
                [] \<Rightarrow> None
              | firstPath # rest \<Rightarrow>
                  if firstPath \<noteq> [] \<and> existsSync h firstPath then Some firstPath else None))
      else
        (case execSync h ''which codex'' None of
           Inl e \<Rightarrow> None
         | Inr out \<Rightarrow>
             (let whichResult = trim out
              in if whichResult \<noteq> [] \<and> existsSync h whichResult then Some whichResult
                 else None)))"

definition commonPaths :: "host \<Rightarrow> string list" where
  "commonPaths h =
     (if platform h = ''win32'' then
        [p_join (path h) [homedir h, ''AppData'', ''Roaming'', ''npm'', ''codex.cmd'']]
      else
        [''/usr/local/bin/codex'',
         p_join (path h) [homedir h, ''.local'', ''bin'', ''codex''],
         p_join (path h) [homedir h, ''.npm-global'', ''bin'', ''codex'']])"

definition getCodexPath :: "host \<Rightarrow> string option" where
  "getCodexPath h =
     (case (case process_env h ''CODEX_PATH'' of
              None \<Rightarrow> None
            | Some p \<Rightarrow> if p \<noteq> [] \<and> existsSync h p then Some p else None) of
        Some p \<Rightarrow> Some p
      | None \<Rightarrow>
          (case which_codex h of
             Some p \<Rightarrow> Some p
           | None \<Rightarrow>
               (case find (existsSync h) (commonPaths h) of
                  Some p \<Rightarrow> Some p
                | None \<Rightarrow> getBundledCodexPath h)))"

record CodexProvider =
  codexPath :: "string option"
  c_volumes :: "VolumeMount list"

definition codex_isAvailable :: "host \<Rightarrow> CodexProvider \<Rightarrow> bool \<times> CodexProvider" where
  "codex_isAvailable h p =
     (let found = getCodexPath h in (found \<noteq> None, p\<lparr>codexPath := found\<rparr>))"

text \<open>\<open>init\<close> only warns when the CLI is missing: it has no throwing branch.\<close>

definition codex_init :: "host \<Rightarrow> CodexProvider \<Rightarrow> thrown + CodexProvider" where
  "codex_init h p = Inr (p\<lparr>codexPath := getCodexPath h\<rparr>)"

definition codex_stop :: "CodexProvider \<Rightarrow> thrown + CodexProvider" where
  "codex_stop p = Inr p"

definition codex_shutdown :: "CodexProvider \<Rightarrow> thrown + CodexProvider" where
  "codex_shutdown p = codex_stop p"

text \<open>
  The listeners that \<open>exec\<close> and \<open>runScript\<close> attach to the child: the text collected so
  far, the armed timer (its deadline), the times at which SIGTERM was sent, and the
  value the promise was resolved with (the first \<open>resolve\<close> wins).
\<close>

record listener =
  acc_stdout :: string
  acc_stderr :: string
  timer :: "nat option"
  kills :: "nat list"
  settled :: "SandboxExecResult option"

definition timed_out_marker :: string where
  "timed_out_marker = CHR 0x0A # ''Execution timed out''"

definition resolve :: "SandboxExecResult \<Rightarrow> listener \<Rightarrow> listener" where
  "resolve r L = (if settled L = None then L\<lparr>settled := Some r\<rparr> else L)"

fun on_event :: "nat \<Rightarrow> proc_event \<Rightarrow> listener \<Rightarrow> listener" where
  "on_event t (StdoutData d) L = L\<lparr>acc_stdout := acc_stdout L @ d\<rparr>"
| "on_event t (StderrData d) L = L\<lparr>acc_stderr := acc_stderr L @ d\<rparr>"
| "on_event t (Close code) L =
     resolve \<lparr>stdout = acc_stdout L, stderr = acc_stderr L,
              exitCode = or_num code 0, duration = t\<rparr> (L\<lparr>timer := None\<rparr>)"
| "on_event t (SpawnError msg) L =
     resolve \<lparr>stdout = acc_stdout L, stderr = acc_stderr L @ [CHR 0x0A] @ msg,
              exitCode = 1, duration = t\<rparr> (L\<lparr>timer := None\<rparr>)"

text \<open>The timer's callback: \<open>proc.kill('SIGTERM')\<close>, then the marker on \<open>stderr\<close>.\<close>

definition on_timer :: "nat \<Rightarrow> listener \<Rightarrow> listener" where
  "on_timer t L =
     L\<lparr>kills := kills L @ [t], acc_stderr := acc_stderr L @ timed_out_marker, timer := None\<rparr>"

fun after_signal :: "nat \<Rightarrow> (nat \<times> proc_event) list \<Rightarrow> listener \<Rightarrow> listener" where
  "after_signal t0 [] L = L"
| "after_signal t0 ((dt, e) # es) L = after_signal t0 es (on_event (t0 + dt) e L)"

text \<open>
  The event loop: the child's events in order; an armed timer whose deadline is not
  later than the next event runs first, and from then on the child answers the signal.
\<close>

fun run_child :: "(nat \<times> proc_event) list \<Rightarrow> (nat \<times> proc_event) list \<Rightarrow> listener \<Rightarrow> listener"
  where
  "run_child [] sig L =
     (case timer L of None \<Rightarrow> L | Some d \<Rightarrow> after_signal d sig (on_timer d L))"
| "run_child ((t, e) # es) sig L =
     (case timer L of
        None \<Rightarrow> run_child es sig (on_event t e L)
      | Some d \<Rightarrow>
          if d \<le> t then after_signal d sig (on_timer d L)
          else run_child es sig (on_event t e L))"

text \<open>\<open>setTimeout\<close> takes a delay below 1 or above \<open>2^31 - 1\<close> milliseconds as 1.\<close>

definition setTimeout_delay :: "int \<Rightarrow> nat" where
  "setTimeout_delay ms = (if ms < 1 \<or> ms > 2147483647 then 1 else nat ms)"

text \<open>\<open>timeout ? setTimeout(..., timeout) : undefined\<close> in \<open>exec\<close>.\<close>

definition arm_timer :: "int option \<Rightarrow> nat option" where
  "arm_timer ms =
     (case ms of None \<Rightarrow> None
      | Some n \<Rightarrow> if n = 0 then None else Some (setTimeout_delay n))"

text \<open>
  The events that end a child: \<open>close\<close> and \<open>error\<close>. \<open>closes evs\<close> says that the child
  ends at some moment, \<open>closes_before d evs\<close> that it ends before the moment \<open>d\<close>.
\<close>

fun is_final :: "proc_event \<Rightarrow> bool" where
  "is_final (Close code) = True"
| "is_final (SpawnError msg) = True"
| "is_final e = False"

definition closes :: "(nat \<times> proc_event) list \<Rightarrow> bool" where
  "closes evs = (\<exists>te \<in> set evs. is_final (snd te))"

definition closes_before :: "nat \<Rightarrow> (nat \<times> proc_event) list \<Rightarrow> bool" where
  "closes_before d evs = (\<exists>te \<in> set evs. is_final (snd te) \<and> fst te < d)"

definition attach :: "nat option \<Rightarrow> child \<Rightarrow> listener" where
  "attach deadline c =
     run_child (natural c) (on_sigterm c)
       \<lparr>acc_stdout = [], acc_stderr = [], timer = deadline, kills = [], settled = None\<rparr>"

definition sandboxSubcommand :: "host \<Rightarrow> string" where
  "sandboxSubcommand h =
     (if platform h = ''darwin'' then ''macos''
      else if platform h = ''linux'' then ''linux'' else ''macos'')"

text \<open>
  What a call did and returned: \<open>spawned\<close> is the request that \<open>spawn\<close> was called with
  (\<open>None\<close> when the call returned before it), \<open>installed\<close> the commands given to
  \<open>execSync\<close>, \<open>sent_sigterm\<close> the times of \<open>proc.kill('SIGTERM')\<close>.
\<close>

record codex_run =
  spawned :: "spawn_request option"
  installed :: "string list"
  sent_sigterm :: "nat list"
  returned :: "SandboxExecResult promise"

definition promise_of :: "listener \<Rightarrow> SandboxExecResult promise" where
  "promise_of L = (case settled L of None \<Rightarrow> Pending | Some r \<Rightarrow> Resolved r)"

definition needsShell :: "string \<Rightarrow> string list \<Rightarrow> bool" where
  "needsShell cmd argv =
     ((\<exists>c \<in> set cmd. c \<in> set ''&|;<>'') \<or> (CHR '' '' \<in> set cmd \<and> argv = []))"

definition not_installed :: "string \<Rightarrow> codex_run" where
  "not_installed msg =
     \<lparr>spawned = None, installed = [], sent_sigterm = [],
      returned = Resolved \<lparr>stdout = [], stderr = msg, exitCode = 1, duration = 0\<rparr>\<rparr>"

text \<open>
  The body of the promise that \<open>exec\<close> and \<open>runScript\<close> return:
  \<open>new Promise((resolve) => { const proc = spawn(...); ... })\<close>. There is no \<open>try\<close> around
  the call of \<open>spawn\<close>, so when it throws, the promise is rejected with the thrown value.
\<close>

definition spawn_and_listen ::
  "host \<Rightarrow> spawn_request \<Rightarrow> string list \<Rightarrow> nat option \<Rightarrow> codex_run" where
  "spawn_and_listen h req cmds deadline =
     (case spawn h req of
        Inl e \<Rightarrow>
          \<lparr>spawned = Some req, installed = cmds, sent_sigterm = [], returned = Rejected e\<rparr>
      | Inr proc \<Rightarrow>
          let L = attach deadline proc
          in \<lparr>spawned = Some req, installed = cmds, sent_sigterm = kills L,
              returned = promise_of L\<rparr>)"

definition codex_exec :: "host \<Rightarrow> CodexProvider \<Rightarrow> SandboxExecOptions \<Rightarrow> codex_run" where
  "codex_exec h p options =
     (case codexPath p of
        None \<Rightarrow> not_installed ''Codex CLI is not installed''
      | Some cp \<Rightarrow>
          if cp = [] then not_installed ''Codex CLI is not installed''
          else
            let argv = (case args options of None \<Rightarrow> [] | Some xs \<Rightarrow> xs);
                workDir = or_str (cwd options) (process_cwd h);
                spawnArgs =
                  (if needsShell (command options) argv then
                     [''sandbox'', sandboxSubcommand h, ''--full-auto'', ''--'', ''sh'', ''-c'',
                      (if argv \<noteq> [] then command options @ '' '' @ join '' '' argv
                       else command options)]
                   else
                     [''sandbox'', sandboxSubcommand h, ''--full-auto'', ''--'', command options]
                     @ argv);
                req = \<lparr>sp_file = cp, sp_args = spawnArgs, sp_cwd = workDir,
                       sp_env = process_env h ++
                         (case env options of None \<Rightarrow> Map.empty | Some e \<Rightarrow> map_of e)\<rparr>
            in spawn_and_listen h req [] (arm_timer (timeout options)))"

text \<open>The runtime that \<open>CodexProvider.runScript\<close> picks for an extension.\<close>

definition codex_runtime :: "string \<Rightarrow> string \<Rightarrow> string \<times> string list \<times> bool" where
  "codex_runtime ext filePath =
     (if ext = ''.js'' \<or> ext = ''.mjs'' then (''node'', [filePath], False)
      else if ext = ''.ts'' \<or> ext = ''.mts'' then (''npx'', [''tsx'', filePath], False)
      else (''python'', [filePath], True))"

text \<open>\<open>options?.timeout || 120000\<close>.\<close>

definition script_timeout :: "ScriptOptions option \<Rightarrow> int" where
  "script_timeout options =
     or_num (case options of None \<Rightarrow> None | Some opt \<Rightarrow> so_timeout opt) 120000"

definition codex_install_command :: "bool \<Rightarrow> string list \<Rightarrow> string" where
  "codex_install_command isPython pkgs =
     (if isPython then ''pip install '' @ join '' '' pkgs
      else ''npm install '' @ join '' '' pkgs)"

definition codex_runScript ::
  "host \<Rightarrow> CodexProvider \<Rightarrow> string \<Rightarrow> string \<Rightarrow> ScriptOptions option \<Rightarrow> codex_run" where
  "codex_runScript h p filePath dir options =
     (let ext = toLowerCase (p_extname (path h) filePath) in
      case codexPath p of
        None \<Rightarrow>
          not_installed
            ''Codex CLI is not installed. Install with: npm install -g @openai/codex''
      | Some cp \<Rightarrow>
          (if cp = [] then
             not_installed
               ''Codex CLI is not installed. Install with: npm install -g @openai/codex''
           else
             let (runtime, runtimeArgs0, isPython) = codex_runtime ext filePath;
                 runtimeArgs = runtimeArgs0 @ args_of options;
                 pkgs = packages_of options;
                 installCmd = codex_install_command isPython pkgs;
                 installFailure =
                   (if pkgs \<noteq> [] then
                      (case execSync h installCmd (Some dir) of
                         Inl e \<Rightarrow> Some (error_text e) | Inr out \<Rightarrow> None)
                    else None)
             in (case installFailure of
                   Some errMsg \<Rightarrow>
                     \<lparr>spawned = None, installed = [installCmd], sent_sigterm = [],
                      returned = Resolved
                        \<lparr>stdout = [], stderr = ''Failed to install packages: '' @ errMsg,
                         exitCode = 1, duration = 0\<rparr>\<rparr>
                 | None \<Rightarrow>
                     let req = \<lparr>sp_file = cp,
                                sp_args = [''sandbox'', sandboxSubcommand h, ''--full-auto'',
                                           ''--'', runtime] @ runtimeArgs,
                                sp_cwd = dir,
                                sp_env = process_env h ++
                                  (case options of None \<Rightarrow> Map.empty | Some opt \<Rightarrow>
                                     (case so_env opt of None \<Rightarrow> Map.empty
                                      | Some e \<Rightarrow> map_of e))\<rparr>
                     in spawn_and_listen h req (if pkgs \<noteq> [] then [installCmd] else [])
                          (Some (setTimeout_delay (script_timeout options))))))"

text \<open>The plugin that the module exports, with its metadata.\<close>

definition CODEX_CLI_METADATA :: SandboxProviderMetadata where
  "CODEX_CLI_METADATA =
     \<lparr>m_type = ''codex'', m_name = ''Codex Sandbox'', m_version = ''1.0.0'',
      m_description = ''Uses OpenAI Codex's sandbox feature for isolated script execution.'',
      m_builtin = None, m_isolation = Process,
      m_supportedRuntimes = [''node'', ''python'', ''bun''],
      m_supportsVolumeMounts = False, m_supportsNetworking = False,
      m_supportsPooling = False, m_tags = None\<rparr>"

definition createCodexProvider :: CodexProvider where
  "createCodexProvider = \<lparr>codexPath = None, c_volumes = []\<rparr>"

definition codexPlugin_definition :: "(unit \<Rightarrow> CodexProvider) SandboxPlugin" where
  "codexPlugin_definition =
     \<lparr>metadata = CODEX_CLI_METADATA, factory = JsFunction (\<lambda>u. createCodexProvider),
      has_onInit = False, has_onDestroy = False\<rparr>"

section \<open>The BoxLite provider (extensions/sandbox/boxlite.ts)\<close>

text \<open>
  The module's variables, and with them the trace of what the process did to the
  BoxLite runtime and to the host's files. A box is named by a number. A call of
  \<open>box.stop()\<close> is \<open>BoxStop\<close> when it returned and \<open>BoxStopThrew\<close> when it threw.
\<close>

record box_options =
  bo_image :: string
  bo_memoryMib :: int
  bo_cpus :: int
  bo_autoRemove :: bool
  bo_workingDir :: "string option"
  bo_volumes :: "VolumeMount list option"

datatype effect =
    NewBox nat box_options
  | NewBoxFailed box_options
  | BoxExec nat "string list"
  | BoxStop nat
  | BoxStopThrew nat
  | Mkdir string
  | WriteFile string string

record boxlite_module =
  SimpleBox :: "simplebox_impl option"
  boxliteModuleLoaded :: bool
  boxliteRuntimeVerified :: bool
  boxliteRuntimeError :: "string option"
  nativeModule :: "native_module option"
  trace :: "effect list"

definition boxlite_module_initial :: boxlite_module where
  "boxlite_module_initial =
     \<lparr>SimpleBox = None, boxliteModuleLoaded = False, boxliteRuntimeVerified = False,
      boxliteRuntimeError = None, nativeModule = None, trace = []\<rparr>"

text \<open>
  What the BoxLite runtime and the host's file system answer. Every answer may depend
  on the moment of the call, which is the length of the trace so far: whether
  \<open>new SimpleBox(options)\<close> throws, what \<open>box.exec\<close> returns or throws, whether
  \<open>box.stop()\<close> throws, whether a directory exists and whether \<open>mkdirSync\<close> throws.
\<close>

record box_result =
  r_exitCode :: int
  r_stdout :: string
  r_stderr :: string

record vm_world =
  construct :: "nat \<Rightarrow> box_options \<Rightarrow> thrown option"
  box_exec :: "nat \<Rightarrow> nat \<Rightarrow> string list \<Rightarrow> thrown + box_result"
  box_stop :: "nat \<Rightarrow> nat \<Rightarrow> thrown option"
  fs_exists :: "nat \<Rightarrow> string \<Rightarrow> bool"
  mkdir_throws :: "nat \<Rightarrow> string \<Rightarrow> bool"

definition do_new :: "vm_world \<Rightarrow> box_options \<Rightarrow> boxlite_module \<Rightarrow> (thrown + nat) \<times> boxlite_module"
  where
  "do_new w opts s =
     (case construct w (length (trace s)) opts of
        Some e \<Rightarrow> (Inl e, s\<lparr>trace := trace s @ [NewBoxFailed opts]\<rparr>)
      | None \<Rightarrow> (Inr (length (trace s)), s\<lparr>trace := trace s @ [NewBox (length (trace s)) opts]\<rparr>))"

definition do_exec ::
  "vm_world \<Rightarrow> nat \<Rightarrow> string list \<Rightarrow> boxlite_module \<Rightarrow> (thrown + box_result) \<times> boxlite_module"
  where
  "do_exec w b argv s =
     (box_exec w (length (trace s)) b argv, s\<lparr>trace := trace s @ [BoxExec b argv]\<rparr>)"

definition stop_effect :: "vm_world \<Rightarrow> nat \<Rightarrow> nat \<Rightarrow> effect" where
  "stop_effect w n b = (if box_stop w n b = None then BoxStop b else BoxStopThrew b)"

definition do_stop :: "vm_world \<Rightarrow> nat \<Rightarrow> boxlite_module \<Rightarrow> thrown option \<times> boxlite_module" where
  "do_stop w b s =
     (box_stop w (length (trace s)) b,
      s\<lparr>trace := trace s @ [stop_effect w (length (trace s)) b]\<rparr>)"

subsection \<open>Loading the module\<close>

definition getBoxliteSearchPaths :: "host \<Rightarrow> string list" where
  "getBoxliteSearchPaths h =
     (let execDir = p_dirname (path h) (execPath h);
          isBunBinary =
            (str_includes (execPath h) ''workany-api'' \<or>
             (\<not> str_includes (execPath h) ''node'' \<and> \<not> str_includes (execPath h) ''bun''))
      in if isBunBinary then
           [p_join (path h) [execDir, ''boxlite''],
            p_join (path h) [execDir, ''..'', ''Resources'', ''boxlite''],
            p_join (path h) [execDir, ''Resources'', ''boxlite'']]
         else [])"

definition nodeFileName :: "host \<Rightarrow> string" where
  "nodeFileName h =
     (if platform h = ''darwin'' \<and> arch h = ''arm64'' then ''index.darwin-arm64.node''
      else if platform h = ''linux'' \<and> arch h = ''x64'' then ''index.linux-x64-gnu.node''
      else if platform h = ''darwin'' \<and> arch h = ''x64'' then ''index.darwin-x64.node''
      else [])"

fun search_native :: "host \<Rightarrow> string \<Rightarrow> string list \<Rightarrow> native_module option" where
  "search_native h name [] = None"
| "search_native h name (boxliteDir # dirs) =
     (let nativeModulePath = p_join (path h) [boxliteDir, name]
      in if existsSync h nativeModulePath then
           (case require h nativeModulePath of
              Inr m \<Rightarrow> Some m
            | Inl e \<Rightarrow> search_native h name dirs)
         else search_native h name dirs)"

definition npm_native :: "host \<Rightarrow> native_module option" where
  "npm_native h =
     (if platform h = ''darwin'' \<and> arch h = ''arm64'' then
        (case require h ''@boxlite-ai/boxlite-darwin-arm64'' of
           Inr m \<Rightarrow> Some m | Inl e \<Rightarrow> None)
      else if platform h = ''linux'' \<and> arch h = ''x64'' then
        (case require h ''@boxlite-ai/boxlite-linux-x64-gnu'' of
           Inr m \<Rightarrow> Some m | Inl e \<Rightarrow> None)
      else None)"

definition loadNativeModuleDirect ::
  "host \<Rightarrow> boxlite_module \<Rightarrow> native_module option \<times> boxlite_module" where
  "loadNativeModuleDirect h s =
     (case nativeModule s of
        Some m \<Rightarrow> (Some m, s)
      | None \<Rightarrow>
          if nodeFileName h = [] then (None, s)
          else
            (case search_native h (nodeFileName h) (getBoxliteSearchPaths h) of
               Some m \<Rightarrow> (Some m, s\<lparr>nativeModule := Some m\<rparr>)
             | None \<Rightarrow>
                 (case npm_native h of
                    Some m \<Rightarrow> (Some m, s\<lparr>nativeModule := Some m\<rparr>)
                  | None \<Rightarrow> (None, s))))"

definition loadBoxLiteModule :: "host \<Rightarrow> boxlite_module \<Rightarrow> bool \<times> boxlite_module" where
  "loadBoxLiteModule h s =
     (if boxliteModuleLoaded s then (True, s)
      else
        let (directNative, s1) = loadNativeModuleDirect h s
        in if directNative \<noteq> None \<and>
              (case nativeModule s1 of None \<Rightarrow> False | Some m \<Rightarrow> has_JsBoxlite m) then
             (True, s1\<lparr>SimpleBox := Some SimpleBoxDirect, boxliteModuleLoaded := True\<rparr>)
           else
             (case import_boxlite h of
                Inr exported \<Rightarrow> (True, s1\<lparr>SimpleBox := exported, boxliteModuleLoaded := True\<rparr>)
              | Inl e \<Rightarrow> (False, s1)))"

subsection \<open>Verifying the runtime\<close>

fun digits :: "nat \<Rightarrow> string" where
  "digits n =
     (if n < 10 then [''0123456789'' ! n] else digits (n div 10) @ [''0123456789'' ! (n mod 10)])"

definition show_int :: "int \<Rightarrow> string" where
  "show_int i = (if i < 0 then ''-'' @ digits (nat (- i)) else digits (nat i))"

definition probe_options :: box_options where
  "probe_options =
     \<lparr>bo_image = ''alpine:latest'', bo_memoryMib = 256, bo_cpus = 1, bo_autoRemove = True,
      bo_workingDir = None, bo_volumes = None\<rparr>"

text \<open>The \<open>catch\<close> block of \<open>verifyBoxLiteRuntime\<close>.\<close>

definition verification_failed :: "thrown \<Rightarrow> boxlite_module \<Rightarrow> bool \<times> boxlite_module" where
  "verification_failed e s =
     (False, s\<lparr>boxliteRuntimeVerified := True, boxliteRuntimeError := Some (error_text e)\<rparr>)"

definition verifyBoxLiteRuntime :: "vm_world \<Rightarrow> boxlite_module \<Rightarrow> bool \<times> boxlite_module" where
  "verifyBoxLiteRuntime w s =
     (if boxliteRuntimeVerified s then (boxliteRuntimeError s = None, s)
      else if \<not> boxliteModuleLoaded s \<or> SimpleBox s = None then
        (False, s\<lparr>boxliteRuntimeVerified := True,
                  boxliteRuntimeError := Some ''BoxLite module not loaded''\<rparr>)
      else
        (case do_new w probe_options s of
           (Inl e, s1) \<Rightarrow> verification_failed e s1
         | (Inr testBox, s1) \<Rightarrow>
             (case do_exec w testBox [''echo'', ''test''] s1 of
                (Inl e, s2) \<Rightarrow> verification_failed e s2
              | (Inr result, s2) \<Rightarrow>
                  (case do_stop w testBox s2 of
                     (Some e, s3) \<Rightarrow> verification_failed e s3
                   | (None, s3) \<Rightarrow>
                       if r_exitCode result = 0 then
                         (True, s3\<lparr>boxliteRuntimeVerified := True,
                                   boxliteRuntimeError := None\<rparr>)
                       else
                         verification_failed
                           (new_Error (''Test command failed with exit code '' @
                                       show_int (r_exitCode result))) s3))))"

definition loadBoxLite :: "host \<Rightarrow> vm_world \<Rightarrow> boxlite_module \<Rightarrow> bool \<times> boxlite_module" where
  "loadBoxLite h w s =
     (let (moduleLoaded, s1) = loadBoxLiteModule h s
      in if \<not> moduleLoaded then (False, s1) else verifyBoxLiteRuntime w s1)"

subsection \<open>The provider\<close>

record boxlite_config =
  memoryMib :: "int option"
  cpus :: "int option"
  workDir :: "string option"
  autoRemove :: "bool option"

record BoxLiteProvider =
  config :: boxlite_config
  volumes :: "VolumeMount list"
  box :: "nat option"
  currentImage :: string

definition new_BoxLiteProvider :: BoxLiteProvider where
  "new_BoxLiteProvider =
     \<lparr>config = \<lparr>memoryMib = Some 1024, cpus = Some 2, workDir = Some ''/workspace'',
                 autoRemove = Some True\<rparr>,
      volumes = [], box = None, currentImage = ''node:18-alpine''\<rparr>"

text \<open>
  The argument of \<open>init\<close>: an object in which each key is absent (\<open>None\<close>) or present
  with a value, which may be \<open>undefined\<close> (\<open>Some None\<close>).
\<close>

record config_arg =
  a_memoryMib :: "int option option"
  a_cpus :: "int option option"
  a_workDir :: "string option option"
  a_autoRemove :: "bool option option"

text \<open>
  \<open>{ ...this.config, ...config }\<close>: every key that is present in the argument replaces
  the old value, also when its value is \<open>undefined\<close>.
\<close>

definition merge_config :: "boxlite_config \<Rightarrow> config_arg \<Rightarrow> boxlite_config" where
  "merge_config old new =
     \<lparr>memoryMib = (case a_memoryMib new of None \<Rightarrow> memoryMib old | Some v \<Rightarrow> v),
      cpus = (case a_cpus new of None \<Rightarrow> cpus old | Some v \<Rightarrow> v),
      workDir = (case a_workDir new of None \<Rightarrow> workDir old | Some v \<Rightarrow> v),
      autoRemove = (case a_autoRemove new of None \<Rightarrow> autoRemove old | Some v \<Rightarrow> v)\<rparr>"

type_synonym boxlite_state = "BoxLiteProvider \<times> boxlite_module"

definition boxlite_isAvailable :: "host \<Rightarrow> vm_world \<Rightarrow> boxlite_state \<Rightarrow> bool \<times> boxlite_state" where
  "boxlite_isAvailable h w st =
     (let (result, s1) = loadBoxLite h w (snd st) in (result, (fst st, s1)))"

definition boxlite_init ::
  "host \<Rightarrow> vm_world \<Rightarrow> config_arg option \<Rightarrow> boxlite_state \<Rightarrow> (thrown + unit) \<times> boxlite_state"
  where
  "boxlite_init h w cfg st =
     (let p1 = (case cfg of None \<Rightarrow> fst st
                | Some c \<Rightarrow> (fst st)\<lparr>config := merge_config (config (fst st)) c\<rparr>);
          (available, st1) = boxlite_isAvailable h w (p1, snd st)
      in if \<not> available then
           (Inl (new_Error ''BoxLite is not available on this platform''), st1)
         else (Inr (), st1))"

definition setVolumes :: "VolumeMount list \<Rightarrow> BoxLiteProvider \<Rightarrow> BoxLiteProvider" where
  "setVolumes vs p = p\<lparr>volumes := vs\<rparr>"

definition create_options :: "BoxLiteProvider \<Rightarrow> string \<Rightarrow> box_options" where
  "create_options p img =
     \<lparr>bo_image = img,
      bo_memoryMib = or_num (memoryMib (config p)) 1024,
      bo_cpus = or_num (cpus (config p)) 2,
      bo_autoRemove = (case autoRemove (config p) of None \<Rightarrow> True | Some b \<Rightarrow> b),
      bo_workingDir = Some (or_str (workDir (config p)) ''/workspace''),
      bo_volumes = Some (volumes p)\<rparr>"

text \<open>The second half of \<open>getOrCreateBox\<close>, from the test of \<open>SimpleBox\<close> on.\<close>

definition create_box :: "vm_world \<Rightarrow> string \<Rightarrow> boxlite_state \<Rightarrow> (thrown + nat) \<times> boxlite_state" where
  "create_box w img st =
     (case SimpleBox (snd st) of
        None \<Rightarrow> (Inl (new_Error ''BoxLite is not loaded''), st)
      | Some impl \<Rightarrow>
          (case do_new w (create_options (fst st) img) (snd st) of
             (Inl e, s1) \<Rightarrow> (Inl e, (fst st, s1))
           | (Inr b, s1) \<Rightarrow>
               (let p1 = (fst st)\<lparr>box := Some b, currentImage := img\<rparr>
                in case do_exec w b [''echo'', ''Box ready''] s1 of
                     (Inl e, s2) \<Rightarrow> (Inl e, (p1, s2))
                   | (Inr ready, s2) \<Rightarrow> (Inr b, (p1, s2)))))"

definition getOrCreateBox ::
  "vm_world \<Rightarrow> string \<Rightarrow> boxlite_state \<Rightarrow> (thrown + nat) \<times> boxlite_state" where
  "getOrCreateBox w img st =
     (case box (fst st) of
        None \<Rightarrow> create_box w img st
      | Some b \<Rightarrow>
          if currentImage (fst st) = img then (Inr b, st)
          else create_box w img (fst st, snd (do_stop w b (snd st))))"

definition dq :: string where
  "dq = [CHR 0x22]"

definition envString :: "(string \<times> string) list option \<Rightarrow> string" where
  "envString e =
     (case e of None \<Rightarrow> []
      | Some kvs \<Rightarrow> join '' '' (map (\<lambda>(k, v). k @ ''='' @ dq @ v @ dq) kvs))"

definition fullCommand :: "string \<Rightarrow> SandboxExecOptions \<Rightarrow> string" where
  "fullCommand dir options =
     (let argv = (case args options of None \<Rightarrow> [] | Some xs \<Rightarrow> xs)
      in if envString (env options) \<noteq> [] then
           ''cd '' @ dir @ '' && '' @ envString (env options) @ '' '' @ command options @ '' ''
           @ join '' '' argv
         else ''cd '' @ dir @ '' && '' @ command options @ '' '' @ join '' '' argv)"

text \<open>\<open>image || this.currentImage || 'node:18-alpine'\<close>.\<close>

definition targetImage :: "SandboxExecOptions \<Rightarrow> BoxLiteProvider \<Rightarrow> string" where
  "targetImage options p =
     or_str (image options) (or_str (Some (currentImage p)) ''node:18-alpine'')"

text \<open>The \<open>catch\<close> block of \<open>exec\<close>.\<close>

definition exec_caught :: "thrown \<Rightarrow> SandboxExecResult" where
  "exec_caught e =
     \<lparr>stdout = or_str (t_stdout e) [], stderr = or_str (t_stderr e) (to_string e),
      exitCode = or_num (t_exitCode e) 1, duration = 0\<rparr>"

definition result_of :: "box_result \<Rightarrow> SandboxExecResult" where
  "result_of r =
     \<lparr>stdout = r_stdout r, stderr = r_stderr r, exitCode = r_exitCode r, duration = 0\<rparr>"

definition boxlite_exec ::
  "vm_world \<Rightarrow> SandboxExecOptions \<Rightarrow> boxlite_state \<Rightarrow> (thrown + SandboxExecResult) \<times> boxlite_state"
  where
  "boxlite_exec w options st =
     (let dir = or_str (cwd options) (or_str (workDir (config (fst st))) ''/workspace'')
      in case getOrCreateBox w (targetImage options (fst st)) st of
           (Inl e, st1) \<Rightarrow> (Inr (exec_caught e), st1)
         | (Inr b, st1) \<Rightarrow>
             (case do_exec w b [''sh'', ''-c'', fullCommand dir options] (snd st1) of
                (Inl e, s2) \<Rightarrow> (Inr (exec_caught e), (fst st1, s2))
              | (Inr r, s2) \<Rightarrow> (Inr (result_of r), (fst st1, s2))))"

definition boxlite_stop :: "vm_world \<Rightarrow> boxlite_state \<Rightarrow> (thrown + unit) \<times> boxlite_state" where
  "boxlite_stop w st =
     (case box (fst st) of
        None \<Rightarrow> (Inr (), st)
      | Some b \<Rightarrow> (Inr (), ((fst st)\<lparr>box := None\<rparr>, snd (do_stop w b (snd st)))))"

definition boxlite_shutdown :: "vm_world \<Rightarrow> boxlite_state \<Rightarrow> (thrown + unit) \<times> boxlite_state" where
  "boxlite_shutdown w st = boxlite_stop w st"

definition getCapabilities :: SandboxCapabilities where
  "getCapabilities =
     \<lparr>supportsVolumeMounts = True, supportsNetworking = True, isolation = Vm,
      supportedRuntimes = [''node'', ''python'', ''bun''], supportsPooling = True\<rparr>"

subsection \<open>Running a script\<close>

text \<open>The \<open>switch\<close> on the extension: the image and the runtime.\<close>

definition boxlite_runtime :: "string \<Rightarrow> string \<times> string" where
  "boxlite_runtime ext =
     (if ext = ''.py'' then (''python:3.11-slim'', ''python'')
      else if ext = ''.ts'' \<or> ext = ''.mts'' then (''oven/bun:latest'', ''bun'')
      else if ext = ''.js'' \<or> ext = ''.mjs'' then (''node:18-alpine'', ''node'')
      else (''node:18-alpine'', ''node''))"

definition install_command :: "string \<Rightarrow> string list \<Rightarrow> string" where
  "install_command dir pkgs =
     ''cd '' @ dq @ dir @ dq @ '' && npm install --no-save '' @ join '' '' pkgs"

definition script_command :: "string \<Rightarrow> string \<Rightarrow> string \<Rightarrow> string \<Rightarrow> string" where
  "script_command dir runtime script argsStr =
     ''cd '' @ dq @ dir @ dq @ '' && '' @ runtime @ '' '' @ dq @ script @ dq @ '' '' @ argsStr"

definition list_command :: "string \<Rightarrow> string" where
  "list_command dir =
     ''ls -la '' @ dq @ dir @ ''/'' @ dq @ '' && find '' @ dq @ dir @ dq @
     '' -maxdepth 2 -type f 2>/dev/null''"

definition base64_command :: "string \<Rightarrow> string" where
  "base64_command f = ''base64 '' @ dq @ f @ dq"

text \<open>
  The body of the copy-back loop for one file. The bytes written are the base64
  decoding of the text that the trace records.
\<close>

definition sync_one :: "host \<Rightarrow> vm_world \<Rightarrow> nat \<Rightarrow> string \<Rightarrow> boxlite_module \<Rightarrow> boxlite_module" where
  "sync_one h w b containerFile s =
     (case do_exec w b [''sh'', ''-c'', base64_command containerFile] s of
        (Inl e, s1) \<Rightarrow> s1
      | (Inr catResult, s1) \<Rightarrow>
          if r_exitCode catResult = 0 \<and> r_stdout catResult \<noteq> [] then
            (let hostFile = containerFile;
                 base64Content = filter (\<lambda>c. \<not> is_space c) (r_stdout catResult);
                 parentDir = p_dirname (path h) hostFile
             in if \<not> fs_exists w (length (trace s1)) parentDir then
                  (if mkdir_throws w (length (trace s1)) parentDir then
                     s1\<lparr>trace := trace s1 @ [Mkdir parentDir]\<rparr>
                   else s1\<lparr>trace := trace s1 @ [Mkdir parentDir, WriteFile hostFile base64Content]\<rparr>)
                else s1\<lparr>trace := trace s1 @ [WriteFile hostFile base64Content]\<rparr>)
          else s1)"

fun sync_files :: "host \<Rightarrow> vm_world \<Rightarrow> nat \<Rightarrow> string list \<Rightarrow> boxlite_module \<Rightarrow> boxlite_module"
  where
  "sync_files h w b [] s = s"
| "sync_files h w b (f # fs) s = sync_files h w b fs (sync_one h w b f s)"

definition files_to_sync :: "string \<Rightarrow> string \<Rightarrow> string \<Rightarrow> string list" where
  "files_to_sync dir scriptBasename listing =
     filter (\<lambda>f. f \<noteq> [] \<and> startsWith f dir \<and> \<not> endsWith f scriptBasename)
       (split_lines (trim listing))"

definition sync_back ::
  "host \<Rightarrow> vm_world \<Rightarrow> nat \<Rightarrow> string \<Rightarrow> string \<Rightarrow> boxlite_module \<Rightarrow> boxlite_module" where
  "sync_back h w b dir scriptBasename s =
     (case do_exec w b [''sh'', ''-c'', list_command dir] s of
        (Inl e, s1) \<Rightarrow> s1
      | (Inr listResult, s1) \<Rightarrow>
          if r_stdout listResult \<noteq> [] then
            sync_files h w b (files_to_sync dir scriptBasename (r_stdout listResult)) s1
          else s1)"

text \<open>The box is stopped and forgotten, so that the next one gets the volume mount.\<close>

definition restart_box :: "vm_world \<Rightarrow> boxlite_state \<Rightarrow> boxlite_state" where
  "restart_box w st =
     (case box (fst st) of
        None \<Rightarrow> st
      | Some b \<Rightarrow> ((fst st)\<lparr>box := None\<rparr>, snd (do_stop w b (snd st))))"

definition install_packages ::
  "vm_world \<Rightarrow> nat \<Rightarrow> string \<Rightarrow> string \<Rightarrow> string list \<Rightarrow> boxlite_module \<Rightarrow>
   thrown option \<times> boxlite_module" where
  "install_packages w b dir runtime pkgs s =
     (if pkgs \<noteq> [] \<and> runtime \<noteq> ''python'' then
        (case do_exec w b [''sh'', ''-c'', install_command dir pkgs] s of
           (Inl e, s1) \<Rightarrow> (Some e, s1)
         | (Inr installResult, s1) \<Rightarrow> (None, s1))
      else (None, s))"

text \<open>\<open>runScript\<close> from the installation of the packages on, in the box it obtained.\<close>

definition run_in_box ::
  "host \<Rightarrow> vm_world \<Rightarrow> nat \<Rightarrow> string \<Rightarrow> string \<Rightarrow> string \<Rightarrow> ScriptOptions option \<Rightarrow>
   boxlite_module \<Rightarrow> (thrown + SandboxExecResult) \<times> boxlite_module" where
  "run_in_box h w b dir runtime filePath options s =
     (let scriptPathInContainer = filePath
      in case install_packages w b dir runtime (packages_of options) s of
           (Some e, s4) \<Rightarrow> (Inl e, s4)
         | (None, s4) \<Rightarrow>
             (case do_exec w b
                     [''sh'', ''-c'',
                      script_command dir runtime scriptPathInContainer (argsStr_of options)]
                     s4 of
                (Inl e, s5) \<Rightarrow> (Inl e, s5)
              | (Inr result, s5) \<Rightarrow>
                  (Inr (result_of result),
                   sync_back h w b dir (p_basename (path h) filePath) s5)))"

definition boxlite_runScript ::
  "host \<Rightarrow> vm_world \<Rightarrow> string \<Rightarrow> string \<Rightarrow> ScriptOptions option \<Rightarrow> boxlite_state \<Rightarrow>
   (thrown + SandboxExecResult) \<times> boxlite_state" where
  "boxlite_runScript h w filePath dir options st =
     (let ext = toLowerCase (p_extname (path h) filePath);
          (img, runtime) = boxlite_runtime ext;
          p1 = setVolumes [\<lparr>hostPath = dir, guestPath = dir, readOnly = Some False\<rparr>] (fst st)
      in case getOrCreateBox w img (restart_box w (p1, snd st)) of
           (Inl e, st3) \<Rightarrow> (Inl e, st3)
         | (Inr b, st3) \<Rightarrow>
             (let (r, s') = run_in_box h w b dir runtime filePath options (snd st3)
              in (r, (fst st3, s'))))"

text \<open>
  The boxes that were constructed, the boxes whose \<open>stop()\<close> returned, and the boxes on
  which \<open>stop()\<close> was called, whether it returned or threw.
\<close>

fun created :: "effect list \<Rightarrow> nat list" where
  "created [] = []"
| "created (NewBox b opts # es) = b # created es"
| "created (e # es) = created es"

fun stopped :: "effect list \<Rightarrow> nat list" where
  "stopped [] = []"
| "stopped (BoxStop b # es) = b # stopped es"
| "stopped (e # es) = stopped es"

fun stop_called :: "effect list \<Rightarrow> nat list" where
  "stop_called [] = []"
| "stop_called (BoxStop b # es) = b # stop_called es"
| "stop_called (BoxStopThrew b # es) = b # stop_called es"
| "stop_called (e # es) = stop_called es"

text \<open>
  A box is live from its construction until a \<open>stop()\<close> on it returns: a box whose
  \<open>stop()\<close> threw may still be running. \<open>unreleased\<close> are the boxes on which \<open>stop()\<close>
  has not been called at all.
\<close>

definition live :: "effect list \<Rightarrow> nat set" where
  "live tr = set (created tr) - set (stopped tr)"

definition unreleased :: "effect list \<Rightarrow> nat set" where
  "unreleased tr = set (created tr) - set (stop_called tr)"

text \<open>The host files written, and the attempts to construct a box.\<close>

fun written :: "effect list \<Rightarrow> string list" where
  "written [] = []"
| "written (WriteFile f c # es) = f # written es"
| "written (e # es) = written es"

fun constructions :: "effect list \<Rightarrow> nat" where
  "constructions [] = 0"
| "constructions (NewBox b opts # es) = Suc (constructions es)"
| "constructions (NewBoxFailed opts # es) = Suc (constructions es)"
| "constructions (e # es) = constructions es"

text \<open>The commands given to \<open>box.exec\<close>, in order.\<close>

fun executed :: "effect list \<Rightarrow> string list list" where
  "executed [] = []"
| "executed (BoxExec b argv # es) = argv # executed es"
| "executed (e # es) = executed es"

text \<open>
  The call of \<open>stop()\<close> on the box that the provider holds, as \<open>runScript\<close> makes it
  first; and the property that there is no box on which \<open>stop()\<close> has not been called
  other than the one that the provider holds.
\<close>

definition held_stop :: "vm_world \<Rightarrow> boxlite_state \<Rightarrow> effect list" where
  "held_stop w st =
     (case box (fst st) of
        None \<Rightarrow> []
      | Some b \<Rightarrow> [stop_effect w (length (trace (snd st))) b])"

definition holds_unreleased :: "boxlite_state \<Rightarrow> bool" where
  "holds_unreleased st = (unreleased (trace (snd st)) \<subseteq> set_option (box (fst st)))"

text \<open>
  What the claims ask for, in their own words: a thrown value that is a
  \<open>ConfigurationError\<close>, and a file that is located under a directory (its normalised
  path continues the normalised path of the directory after a separator).
\<close>

definition is_ConfigurationError :: "thrown \<Rightarrow> bool" where
  "is_ConfigurationError e = (is_Error e \<and> error_name e = ''ConfigurationError'')"

definition located_under :: "string \<Rightarrow> string \<Rightarrow> bool" where
  "located_under dir f =
     startsWith (posix_normalize f) (strip_slashes (posix_normalize dir) @ ''/'')"

section \<open>Example hosts and runtimes\<close>

text \<open>
  A Linux host on which no file exists and no module can be loaded, around a given
  child process; the same host with the Codex CLI installed; and the same host with
  the BoxLite package installed.
\<close>

definition bare_host :: "child \<Rightarrow> host" where
  "bare_host c =
     \<lparr>platform = ''linux'', arch = ''x64'', homedir = ''/home/u'', execPath = ''/usr/bin/node'',
      module_dirname = ''/app/dist'', process_env = Map.empty, process_cwd = ''/w'',
      existsSync = (\<lambda>p. False),
      execSync = (\<lambda>cmd dir. Inl (new_Error ''Command failed'')),
      path = posix_path, spawn = (\<lambda>req. Inr c),
      require = (\<lambda>m. Inl (new_Error ''Cannot find module'')),
      import_boxlite = Inl (new_Error ''Cannot find package'')\<rparr>"

definition boxlite_host :: "child \<Rightarrow> host" where
  "boxlite_host c = (bare_host c)\<lparr>import_boxlite := Inr (Some SimpleBoxNpm)\<rparr>"

definition codex_installed :: CodexProvider where
  "codex_installed = \<lparr>codexPath = Some ''/usr/local/bin/codex'', c_volumes = []\<rparr>"

text \<open>
  A child that sleeps for five seconds and is ended by SIGTERM one millisecond after
  the signal, and a child that reports with the \<open>error\<close> event that it could not be
  started.
\<close>

definition sleeper :: child where
  "sleeper = \<lparr>natural = [(5000, Close (Some 0))], on_sigterm = [(1, Close None)]\<rparr>"

definition unspawnable :: child where
  "unspawnable = \<lparr>natural = [(0, SpawnError ''spawn ENOENT''), (0, Close (Some (- 2)))],
                   on_sigterm = []\<rparr>"

text \<open>
  A child that never emits an event, and a host on which \<open>spawn\<close> itself throws.
\<close>

definition hanging :: child where
  "hanging = \<lparr>natural = [], on_sigterm = []\<rparr>"

definition refusing_host :: host where
  "refusing_host = (bare_host sleeper)\<lparr>spawn := (\<lambda>req. Inl (new_Error ''spawn E2BIG''))\<rparr>"

definition sleep_options :: "int option \<Rightarrow> SandboxExecOptions" where
  "sleep_options ms =
     \<lparr>command = ''sleep'', args = Some [''5''], cwd = None, env = None, timeout = ms,
      image = None\<rparr>"

text \<open>
  A BoxLite runtime in which every call succeeds with exit code 0 and no output, and
  one whose commands all exit with code 1. In \<open>listing_world\<close> the listing of \<open>/w\<close>
  names the script and one output file, whose base64 text is \<open>aGk=\<close>.
\<close>

definition quiet_world :: vm_world where
  "quiet_world =
     \<lparr>construct = (\<lambda>n opts. None),
      box_exec = (\<lambda>n b argv. Inr \<lparr>r_exitCode = 0, r_stdout = [], r_stderr = []\<rparr>),
      box_stop = (\<lambda>n b. None),
      fs_exists = (\<lambda>n p. True),
      mkdir_throws = (\<lambda>n p. False)\<rparr>"

definition failing_world :: vm_world where
  "failing_world =
     quiet_world\<lparr>box_exec := (\<lambda>n b argv. Inr \<lparr>r_exitCode = 1, r_stdout = [], r_stderr = ''failed''\<rparr>)\<rparr>"

definition listing_world :: vm_world where
  "listing_world =
     quiet_world\<lparr>box_exec := (\<lambda>n b argv.
        if argv = [''sh'', ''-c'', list_command ''/w''] then
          Inr \<lparr>r_exitCode = 0, r_stdout = ''/w/a.py'' @ [CHR 0x0A] @ ''/w/out'' @ [CHR 0x0A],
               r_stderr = []\<rparr>
        else if argv = [''sh'', ''-c'', base64_command ''/w/out''] then
          Inr \<lparr>r_exitCode = 0, r_stdout = ''aGk='' @ [CHR 0x0A], r_stderr = []\<rparr>
        else Inr \<lparr>r_exitCode = 0, r_stdout = [], r_stderr = []\<rparr>)\<rparr>"

text \<open>
  A runtime in which the listing of \<open>/w\<close> has two lines that start with \<open>/w\<close> and name
  files outside \<open>/w\<close>; and a runtime in which every \<open>box.stop()\<close> throws.
\<close>

definition escaping_world :: vm_world where
  "escaping_world =
     quiet_world\<lparr>box_exec := (\<lambda>n b argv.
        if argv = [''sh'', ''-c'', list_command ''/w''] then
          Inr \<lparr>r_exitCode = 0,
               r_stdout = ''/w/../etc/x'' @ [CHR 0x0A] @ ''/w2/y'' @ [CHR 0x0A],
               r_stderr = []\<rparr>
        else if argv = [''sh'', ''-c'', base64_command ''/w/../etc/x'']
                \<or> argv = [''sh'', ''-c'', base64_command ''/w2/y''] then
          Inr \<lparr>r_exitCode = 0, r_stdout = ''aGk='' @ [CHR 0x0A], r_stderr = []\<rparr>
        else Inr \<lparr>r_exitCode = 0, r_stdout = [], r_stderr = []\<rparr>)\<rparr>"

definition stop_throws_world :: vm_world where
  "stop_throws_world = quiet_world\<lparr>box_stop := (\<lambda>n b. Some (new_Error ''stop failed''))\<rparr>"

text \<open>A runtime in which \<open>npm install\<close> of \<open>left-pad\<close> in \<open>/w\<close> fails and all else succeeds.\<close>

definition install_fails_world :: vm_world where
  "install_fails_world =
     quiet_world\<lparr>box_exec := (\<lambda>n b argv.
        if argv = [''sh'', ''-c'', install_command ''/w'' [''left-pad'']] then
          Inr \<lparr>r_exitCode = 1, r_stdout = [], r_stderr = ''npm ERR!''\<rparr>
        else Inr \<lparr>r_exitCode = 0, r_stdout = [], r_stderr = []\<rparr>)\<rparr>"

definition loaded_module :: boxlite_module where
  "loaded_module =
     boxlite_module_initial\<lparr>SimpleBox := Some SimpleBoxNpm, boxliteModuleLoaded := True\<rparr>"

text \<open>A provider that holds a running box, number 0.\<close>

definition running_box :: boxlite_state where
  "running_box =
     (new_BoxLiteProvider\<lparr>box := Some 0\<rparr>,
      loaded_module\<lparr>trace := [NewBox 0 (create_options new_BoxLiteProvider ''node:18-alpine''),
                                BoxExec 0 [''echo'', ''Box ready'']]\<rparr>)"

definition script_options :: "string list \<Rightarrow> ScriptOptions option" where
  "script_options pkgs = Some \<lparr>so_args = None, so_env = None, so_timeout = None, packages = Some pkgs\<rparr>"

section \<open>Plugin validation\<close>

text \<open>
  C5, as amended. \<open>defineSandboxPlugin\<close> validates at definition time, in this order:
  a plugin whose \<open>metadata.type\<close> is empty, whose \<open>metadata.name\<close> is empty or whose
  factory is not callable is rejected at once (it is never returned, so what is
  registered afterwards is not it). What is thrown is a plain \<open>Error\<close> whose message
  names the missing member, not a \<open>ConfigurationError\<close>. Every other plugin is returned
  unchanged.
\<close>

theorem defineSandboxPlugin_validates:
  "(m_type (metadata p) = [] \<longrightarrow>
      defineSandboxPlugin p = Inl (new_Error ''Sandbox plugin must have a type''))
   \<and> (m_type (metadata p) \<noteq> [] \<and> m_name (metadata p) = [] \<longrightarrow>
      defineSandboxPlugin p = Inl (new_Error ''Sandbox plugin must have a name''))
   \<and> (m_type (metadata p) \<noteq> [] \<and> m_name (metadata p) \<noteq> [] \<and> factory p = NotCallable \<longrightarrow>
      defineSandboxPlugin p = Inl (new_Error ''Sandbox plugin must have a factory function''))
   \<and> (m_type (metadata p) \<noteq> [] \<and> m_name (metadata p) \<noteq> [] \<and> factory p \<noteq> NotCallable
      \<longrightarrow> defineSandboxPlugin p = Inr p)
   \<and> is_Error (new_Error msg) \<and> error_name (new_Error msg) = ''Error''
   \<and> message (new_Error msg) = msg"
  by (simp add: defineSandboxPlugin_def new_Error_def)

theorem defineSandboxPlugin_validates_witness:
  "defineSandboxPlugin codexPlugin_definition = Inr codexPlugin_definition
   \<and> defineSandboxPlugin (codexPlugin_definition\<lparr>factory := NotCallable\<rparr>)
       = Inl (new_Error ''Sandbox plugin must have a factory function'')
   \<and> defineSandboxPlugin
        (codexPlugin_definition\<lparr>metadata := CODEX_CLI_METADATA\<lparr>m_name := []\<rparr>\<rparr>)
       = Inl (new_Error ''Sandbox plugin must have a name'')
   \<and> defineSandboxPlugin
        (codexPlugin_definition\<lparr>metadata := CODEX_CLI_METADATA\<lparr>m_type := [], m_name := []\<rparr>,
                                 factory := NotCallable\<rparr>)
       = Inl (new_Error ''Sandbox plugin must have a type'')"
  using defineSandboxPlugin_validates [of codexPlugin_definition]
        defineSandboxPlugin_validates [of "codexPlugin_definition\<lparr>factory := NotCallable\<rparr>"]
        defineSandboxPlugin_validates
          [of "codexPlugin_definition\<lparr>metadata := CODEX_CLI_METADATA\<lparr>m_name := []\<rparr>\<rparr>"]
        defineSandboxPlugin_validates
          [of "codexPlugin_definition\<lparr>metadata := CODEX_CLI_METADATA\<lparr>m_type := [], m_name := []\<rparr>,
                                       factory := NotCallable\<rparr>"]
  by (simp add: codexPlugin_definition_def CODEX_CLI_METADATA_def)

text \<open>
  The claim as it is written fails on the class of the failure: the plugin of the Codex
  provider without a callable factory is rejected with a plain \<open>Error\<close>, which is no
  \<open>ConfigurationError\<close>.
\<close>

theorem defineSandboxPlugin_error_class_counterexample:
  "defineSandboxPlugin (codexPlugin_definition\<lparr>factory := NotCallable\<rparr>)
     = Inl (new_Error ''Sandbox plugin must have a factory function'')
   \<and> error_name (new_Error ''Sandbox plugin must have a factory function'') = ''Error''
   \<and> \<not> is_ConfigurationError (new_Error ''Sandbox plugin must have a factory function'')"
  by (simp add: defineSandboxPlugin_def codexPlugin_definition_def CODEX_CLI_METADATA_def
      new_Error_def is_ConfigurationError_def)

section \<open>Traces of the BoxLite provider\<close>

lemma created_append: "created (xs @ ys) = created xs @ created ys"
  by (induction xs rule: created.induct) auto

lemma stopped_append: "stopped (xs @ ys) = stopped xs @ stopped ys"
  by (induction xs rule: stopped.induct) auto

lemma stop_called_append: "stop_called (xs @ ys) = stop_called xs @ stop_called ys"
  by (induction xs rule: stop_called.induct) auto

lemma stop_called_stop_effect [simp]:
  "stop_called (stop_effect w n b # es) = b # stop_called es"
  by (simp add: stop_effect_def)

lemma created_stop_effect [simp]: "created (stop_effect w n b # es) = created es"
  by (simp add: stop_effect_def)

lemma written_stop_effect [simp]: "written (stop_effect w n b # es) = written es"
  by (simp add: stop_effect_def)

lemma constructions_stop_effect [simp]:
  "constructions (stop_effect w n b # es) = constructions es"
  by (simp add: stop_effect_def)

lemma written_append: "written (xs @ ys) = written xs @ written ys"
  by (induction xs rule: written.induct) auto

lemma constructions_append: "constructions (xs @ ys) = constructions xs + constructions ys"
  by (induction xs rule: constructions.induct) auto

lemma snd_do_exec: "snd (do_exec w b a s) = s\<lparr>trace := trace s @ [BoxExec b a]\<rparr>"
  by (simp add: do_exec_def)

lemma snd_do_stop: "snd (do_stop w b s) = s\<lparr>trace := trace s @ [stop_effect w (length (trace s)) b]\<rparr>"
  by (simp add: do_stop_def)

lemma do_exec_eq: "do_exec w b a s = (r, s1) \<Longrightarrow> s1 = s\<lparr>trace := trace s @ [BoxExec b a]\<rparr>"
  by (auto simp add: do_exec_def)

lemma do_stop_eq: "do_stop w b s = (r, s1) \<Longrightarrow> s1 = s\<lparr>trace := trace s @ [stop_effect w (length (trace s)) b]\<rparr>"
  by (auto simp add: do_stop_def)

lemma do_new_Inl: "do_new w opts s = (Inl e, s1) \<Longrightarrow> s1 = s\<lparr>trace := trace s @ [NewBoxFailed opts]\<rparr>"
  by (auto simp add: do_new_def split: option.splits)

lemma do_new_Inr: "do_new w opts s = (Inr b, s1) \<Longrightarrow>
   b = length (trace s) \<and> s1 = s\<lparr>trace := trace s @ [NewBox b opts]\<rparr>"
  by (auto simp add: do_new_def split: option.splits)

lemma unreleased_exec: "unreleased (tr @ [BoxExec b a]) = unreleased tr"
  by (simp add: unreleased_def created_append stop_called_append)

lemma unreleased_stop: "unreleased (tr @ [stop_effect w n b]) = unreleased tr - {b}"
  by (auto simp add: unreleased_def created_append stop_called_append)

lemma unreleased_new: "unreleased (tr @ [NewBox b opts]) \<subseteq> insert b (unreleased tr)"
  by (auto simp add: unreleased_def created_append stop_called_append)

lemma unreleased_failed: "unreleased (tr @ [NewBoxFailed opts]) = unreleased tr"
  by (simp add: unreleased_def created_append stop_called_append)

lemma create_box_cases:
  assumes "create_box w img (p, s) = (r, p', s')"
  shows "(p' = p \<and> s' = s \<and> r = Inl (new_Error ''BoxLite is not loaded'') \<and> SimpleBox s = None)
       \<or> (p' = p \<and> s' = s\<lparr>trace := trace s @ [NewBoxFailed (create_options p img)]\<rparr>
           \<and> (\<exists>e. r = Inl e) \<and> SimpleBox s \<noteq> None)
       \<or> (p' = p\<lparr>box := Some (length (trace s)), currentImage := img\<rparr>
           \<and> s' = s\<lparr>trace := trace s @ [NewBox (length (trace s)) (create_options p img),
                                          BoxExec (length (trace s)) [''echo'', ''Box ready'']]\<rparr>
           \<and> SimpleBox s \<noteq> None
           \<and> (r = Inr (length (trace s)) \<or> (\<exists>e. r = Inl e)))"
  using assms
  by (auto simp add: create_box_def do_new_def do_exec_def Let_def
      split: option.splits prod.splits sum.splits)

lemma unreleased_new2: "unreleased (tr @ [NewBox b opts, BoxExec b a]) \<subseteq> insert b (unreleased tr)"
  by (auto simp add: unreleased_def created_append stop_called_append)

lemma unreleased_new2D: "x \<in> unreleased (tr @ [NewBox b opts, BoxExec b a]) \<Longrightarrow> x = b \<or> x \<in> unreleased tr"
  using unreleased_new2 by blast

lemma create_box_unreleased:
  assumes "create_box w img (p, s) = (r, p', s')"
  shows "unreleased (trace s') - set_option (box p') \<subseteq> unreleased (trace s)"
  using create_box_cases [OF assms]
  by (auto simp add: unreleased_failed dest: unreleased_new2D)

lemma getOrCreateBox_unreleased:
  assumes "getOrCreateBox w img (p, s) = (r, p', s')"
  shows "unreleased (trace s') - set_option (box p') \<subseteq> unreleased (trace s) - set_option (box p)"
proof (cases "box p")
  case None
  with assms have "create_box w img (p, s) = (r, p', s')"
    by (simp add: getOrCreateBox_def)
  from create_box_unreleased [OF this] None show ?thesis by simp
next
  case (Some b)
  show ?thesis
  proof (cases "currentImage p = img")
    case True
    with Some assms show ?thesis by (auto simp add: getOrCreateBox_def)
  next
    case False
    with Some assms
    have "create_box w img (p, s\<lparr>trace := trace s @ [stop_effect w (length (trace s)) b]\<rparr>) = (r, p', s')"
      by (simp add: getOrCreateBox_def snd_do_stop)
    from create_box_unreleased [OF this] Some show ?thesis
      by (auto simp add: unreleased_stop)
  qed
qed


lemma unreleased_append_neutral:
  "created ext = [] \<Longrightarrow> stop_called ext = [] \<Longrightarrow> unreleased (tr @ ext) = unreleased tr"
  by (simp add: unreleased_def created_append stop_called_append)

lemma sync_one_trace:
  "\<exists>ext. sync_one h w b f s = s\<lparr>trace := trace s @ ext\<rparr>
         \<and> created ext = [] \<and> stop_called ext = [] \<and> constructions ext = 0
         \<and> set (written ext) \<subseteq> {f}"
proof -
  let ?s1 = "s\<lparr>trace := trace s @ [BoxExec b [''sh'', ''-c'', base64_command f]]\<rparr>"
  have "sync_one h w b f s = s\<lparr>trace := trace s @ [BoxExec b [''sh'', ''-c'', base64_command f]]\<rparr>
      \<or> (\<exists>d. sync_one h w b f s =
             s\<lparr>trace := trace s @ [BoxExec b [''sh'', ''-c'', base64_command f], Mkdir d]\<rparr>)
      \<or> (\<exists>d c. sync_one h w b f s =
             s\<lparr>trace := trace s @ [BoxExec b [''sh'', ''-c'', base64_command f], Mkdir d,
                                    WriteFile f c]\<rparr>)
      \<or> (\<exists>c. sync_one h w b f s =
             s\<lparr>trace := trace s @ [BoxExec b [''sh'', ''-c'', base64_command f],
                                    WriteFile f c]\<rparr>)"
    by (auto simp add: sync_one_def do_exec_def Let_def split: sum.splits)
  then show ?thesis
  proof (elim disjE exE)
    assume a: "sync_one h w b f s = ?s1"
    show ?thesis
      by (rule exI [of _ "[BoxExec b [''sh'', ''-c'', base64_command f]]"]) (simp add: a)
  next
    fix d assume a: "sync_one h w b f s =
             s\<lparr>trace := trace s @ [BoxExec b [''sh'', ''-c'', base64_command f], Mkdir d]\<rparr>"
    show ?thesis
      by (rule exI [of _ "[BoxExec b [''sh'', ''-c'', base64_command f], Mkdir d]"]) (simp add: a)
  next
    fix d c assume a: "sync_one h w b f s =
             s\<lparr>trace := trace s @ [BoxExec b [''sh'', ''-c'', base64_command f], Mkdir d,
                                    WriteFile f c]\<rparr>"
    show ?thesis
      by (rule exI [of _ "[BoxExec b [''sh'', ''-c'', base64_command f], Mkdir d, WriteFile f c]"])
         (simp add: a)
  next
    fix c assume a: "sync_one h w b f s =
             s\<lparr>trace := trace s @ [BoxExec b [''sh'', ''-c'', base64_command f],
                                    WriteFile f c]\<rparr>"
    show ?thesis
      by (rule exI [of _ "[BoxExec b [''sh'', ''-c'', base64_command f], WriteFile f c]"])
         (simp add: a)
  qed
qed

lemma sync_files_trace:
  "\<exists>ext. sync_files h w b fs s = s\<lparr>trace := trace s @ ext\<rparr>
         \<and> created ext = [] \<and> stop_called ext = [] \<and> constructions ext = 0
         \<and> set (written ext) \<subseteq> set fs"
proof (induction fs arbitrary: s)
  case Nil
  show ?case by (rule exI [of _ "[]"]) simp
next
  case (Cons f fs)
  obtain e1 where e1: "sync_one h w b f s = s\<lparr>trace := trace s @ e1\<rparr>"
    "created e1 = []" "stop_called e1 = []" "constructions e1 = 0" "set (written e1) \<subseteq> {f}"
    using sync_one_trace by blast
  obtain e2 where e2:
    "sync_files h w b fs (s\<lparr>trace := trace s @ e1\<rparr>) =
       s\<lparr>trace := trace s @ e1\<rparr>\<lparr>trace := trace (s\<lparr>trace := trace s @ e1\<rparr>) @ e2\<rparr>"
    "created e2 = []" "stop_called e2 = []" "constructions e2 = 0" "set (written e2) \<subseteq> set fs"
    using Cons.IH by blast
  show ?case
    by (rule exI [of _ "e1 @ e2"])
       (use e1 e2 in \<open>auto simp add: created_append stop_called_append constructions_append
           written_append\<close>)
qed

lemma sync_back_trace:
  "\<exists>ext. sync_back h w b dir base s = s\<lparr>trace := trace s @ ext\<rparr>
         \<and> created ext = [] \<and> stop_called ext = [] \<and> constructions ext = 0
         \<and> (\<forall>f \<in> set (written ext). f \<noteq> [] \<and> startsWith f dir \<and> \<not> endsWith f base)"
proof -
  let ?s1 = "s\<lparr>trace := trace s @ [BoxExec b [''sh'', ''-c'', list_command dir]]\<rparr>"
  have "sync_back h w b dir base s = ?s1
        \<or> (\<exists>listing. sync_back h w b dir base s =
              sync_files h w b (files_to_sync dir base listing) ?s1)"
    by (auto simp add: sync_back_def do_exec_def split: sum.splits)
  then show ?thesis
  proof (elim disjE exE)
    assume a: "sync_back h w b dir base s = ?s1"
    show ?thesis
      by (rule exI [of _ "[BoxExec b [''sh'', ''-c'', list_command dir]]"]) (simp add: a)
  next
    fix listing
    assume a: "sync_back h w b dir base s =
              sync_files h w b (files_to_sync dir base listing) ?s1"
    obtain e2 where e2:
      "sync_files h w b (files_to_sync dir base listing) ?s1 = ?s1\<lparr>trace := trace ?s1 @ e2\<rparr>"
      "created e2 = []" "stop_called e2 = []" "constructions e2 = 0"
      "set (written e2) \<subseteq> set (files_to_sync dir base listing)"
      using sync_files_trace by blast
    show ?thesis
      by (rule exI [of _ "BoxExec b [''sh'', ''-c'', list_command dir] # e2"])
         (use a e2 in \<open>auto simp add: files_to_sync_def\<close>)
  qed
qed


lemma create_box_state:
  assumes "create_box w img (p, s) = (r, p', s')"
  shows "(p' = p \<and> s' = s)
       \<or> (p' = p \<and> s' = s\<lparr>trace := trace s @ [NewBoxFailed (create_options p img)]\<rparr>)
       \<or> (p' = p\<lparr>box := Some (length (trace s)), currentImage := img\<rparr>
           \<and> s' = s\<lparr>trace := trace s @ [NewBox (length (trace s)) (create_options p img),
                                          BoxExec (length (trace s)) [''echo'', ''Box ready'']]\<rparr>)"
  using create_box_cases [OF assms] by blast

lemma getOrCreateBox_trace:
  assumes "getOrCreateBox w img (p, s) = (r, p', s')"
  shows "\<exists>ext. s' = s\<lparr>trace := trace s @ ext\<rparr> \<and> written ext = []
           \<and> (\<forall>b. box p = Some b \<and> currentImage p \<noteq> img \<longrightarrow> (\<exists>rest. ext = stop_effect w (length (trace s)) b # rest))"
proof (cases "box p")
  case None
  with assms have c: "create_box w img (p, s) = (r, p', s')"
    by (simp add: getOrCreateBox_def)
  from create_box_state [OF c] show ?thesis
  proof (elim disjE conjE)
    assume "s' = s"
    then show ?thesis using None by (intro exI [of _ "[]"]) simp
  next
    assume a: "s' = s\<lparr>trace := trace s @ [NewBoxFailed (create_options p img)]\<rparr>"
    show ?thesis using None a
      by (intro exI [of _ "[NewBoxFailed (create_options p img)]"]) simp
  next
    assume a: "s' = s\<lparr>trace := trace s @ [NewBox (length (trace s)) (create_options p img),
                                          BoxExec (length (trace s)) [''echo'', ''Box ready'']]\<rparr>"
    show ?thesis using None a
      by (intro exI [of _ "[NewBox (length (trace s)) (create_options p img),
                            BoxExec (length (trace s)) [''echo'', ''Box ready'']]"]) simp
  qed
next
  case (Some b)
  show ?thesis
  proof (cases "currentImage p = img")
    case True
    with Some assms have "s' = s" by (auto simp add: getOrCreateBox_def)
    then show ?thesis using True by (intro exI [of _ "[]"]) simp
  next
    case False
    let ?s1 = "s\<lparr>trace := trace s @ [stop_effect w (length (trace s)) b]\<rparr>"
    from False Some assms
    have c: "create_box w img (p, ?s1) = (r, p', s')"
      by (simp add: getOrCreateBox_def snd_do_stop)
    from create_box_state [OF c] show ?thesis
    proof (elim disjE conjE)
      assume "s' = ?s1"
      then show ?thesis using Some by (intro exI [of _ "[stop_effect w (length (trace s)) b]"]) simp
    next
      assume a: "s' = ?s1\<lparr>trace := trace ?s1 @ [NewBoxFailed (create_options p img)]\<rparr>"
      show ?thesis using Some a
        by (intro exI [of _ "[stop_effect w (length (trace s)) b, NewBoxFailed (create_options p img)]"]) simp
    next
      assume a: "s' = ?s1\<lparr>trace := trace ?s1 @
                     [NewBox (length (trace ?s1)) (create_options p img),
                      BoxExec (length (trace ?s1)) [''echo'', ''Box ready'']]\<rparr>"
      show ?thesis using Some a
        by (intro exI [of _ "[stop_effect w (length (trace s)) b, NewBox (length (trace ?s1)) (create_options p img),
                              BoxExec (length (trace ?s1)) [''echo'', ''Box ready'']]"]) simp
    qed
  qed
qed

lemma restart_box_cases:
  "restart_box w (p, s) =
     (case box p of None \<Rightarrow> (p, s)
      | Some b \<Rightarrow> (p\<lparr>box := None\<rparr>, s\<lparr>trace := trace s @ [stop_effect w (length (trace s)) b]\<rparr>))"
  by (simp add: restart_box_def snd_do_stop split: option.splits)

lemma install_packages_cases:
  assumes "install_packages w b dir runtime pkgs s = (r, s')"
  shows "(pkgs \<noteq> [] \<and> runtime \<noteq> ''python''
            \<and> s' = s\<lparr>trace := trace s @ [BoxExec b [''sh'', ''-c'', install_command dir pkgs]]\<rparr>)
       \<or> ((pkgs = [] \<or> runtime = ''python'') \<and> s' = s \<and> r = None)"
  using assms
  by (auto simp add: install_packages_def do_exec_def split: if_splits sum.splits)


lemma trace_do_exec [simp]: "trace (snd (do_exec w b a s)) = trace s @ [BoxExec b a]"
  by (simp add: do_exec_def)

lemma trace_do_stop [simp]: "trace (snd (do_stop w b s)) = trace s @ [stop_effect w (length (trace s)) b]"
  by (simp add: do_stop_def)

lemma sync_back_observed:
  "prefix (trace s) (trace (sync_back h w b dir base s))"
  "created (trace (sync_back h w b dir base s)) = created (trace s)"
  "stop_called (trace (sync_back h w b dir base s)) = stop_called (trace s)"
  "constructions (trace (sync_back h w b dir base s)) = constructions (trace s)"
  "set (written (trace (sync_back h w b dir base s)))
     \<subseteq> set (written (trace s)) \<union> {f. f \<noteq> [] \<and> startsWith f dir \<and> \<not> endsWith f base}"
  using sync_back_trace [of h w b dir base s]
  by (auto simp add: created_append stop_called_append constructions_append written_append)

lemma run_in_box_observed:
  "prefix (trace s) (trace (snd (run_in_box h w b dir runtime fp options s)))"
  "created (trace (snd (run_in_box h w b dir runtime fp options s))) = created (trace s)"
  "stop_called (trace (snd (run_in_box h w b dir runtime fp options s))) = stop_called (trace s)"
  "set (written (trace (snd (run_in_box h w b dir runtime fp options s))))
     \<subseteq> set (written (trace s))
       \<union> {f. f \<noteq> [] \<and> startsWith f dir \<and> \<not> endsWith f (p_basename (path h) fp)}"
proof -
  let ?base = "p_basename (path h) fp"
  let ?i = "install_packages w b dir runtime (packages_of options) s"
  let ?cmd = "[''sh'', ''-c'', script_command dir runtime fp (argsStr_of options)]"
  have i: "snd ?i = s \<or> snd ?i = s\<lparr>trace := trace s @
             [BoxExec b [''sh'', ''-c'', install_command dir (packages_of options)]]\<rparr>"
    using install_packages_cases [of w b dir runtime "packages_of options" s "fst ?i" "snd ?i"]
    by auto
  have r: "snd (run_in_box h w b dir runtime fp options s) = snd ?i
         \<or> snd (run_in_box h w b dir runtime fp options s) = snd (do_exec w b ?cmd (snd ?i))
         \<or> snd (run_in_box h w b dir runtime fp options s)
              = sync_back h w b dir ?base (snd (do_exec w b ?cmd (snd ?i)))"
    by (auto simp add: run_in_box_def Let_def split: prod.splits option.splits sum.splits)
  have p1: "prefix (trace s) (trace (snd ?i))" using i by auto
  have p2: "prefix (trace s) (trace (snd (do_exec w b ?cmd (snd ?i))))"
    using i by auto
  have p3: "prefix (trace s) (trace (sync_back h w b dir ?base (snd (do_exec w b ?cmd (snd ?i)))))"
    using p2 sync_back_observed(1) prefix_order.trans by blast
  show "prefix (trace s) (trace (snd (run_in_box h w b dir runtime fp options s)))"
    using r p1 p2 p3 by auto
  show "created (trace (snd (run_in_box h w b dir runtime fp options s))) = created (trace s)"
    using r i by (auto simp add: sync_back_observed created_append)
  show "stop_called (trace (snd (run_in_box h w b dir runtime fp options s))) = stop_called (trace s)"
    using r i by (auto simp add: sync_back_observed stop_called_append)
  have w1: "written (trace (snd ?i)) = written (trace s)"
    using i by (auto simp add: written_append)
  have w2: "written (trace (snd (do_exec w b ?cmd (snd ?i)))) = written (trace s)"
    using w1 by (simp add: written_append)
  show "set (written (trace (snd (run_in_box h w b dir runtime fp options s))))
     \<subseteq> set (written (trace s))
       \<union> {f. f \<noteq> [] \<and> startsWith f dir \<and> \<not> endsWith f ?base}"
    using r w1 w2
      sync_back_observed(5) [of h w b dir ?base "snd (do_exec w b ?cmd (snd ?i))"]
    by auto
qed


lemma getOrCreateBox_observed:
  assumes "getOrCreateBox w img (p, s) = (r, p', s')"
  shows "prefix (trace s) (trace s')" and "written (trace s') = written (trace s)"
    and "box p = Some b \<Longrightarrow> currentImage p \<noteq> img \<Longrightarrow> prefix (trace s @ [stop_effect w (length (trace s)) b]) (trace s')"
  using getOrCreateBox_trace [OF assms] by (auto simp add: written_append)

lemma restart_box_observed:
  assumes "restart_box w (p, s) = (p', s')"
  shows "box p' = None" and "written (trace s') = written (trace s)"
    and "box p = Some b \<Longrightarrow> trace s' = trace s @ [stop_effect w (length (trace s)) b]"
    and "unreleased (trace s') \<subseteq> unreleased (trace s) - set_option (box p)"
    and "prefix (trace s) (trace s')"
  using assms
  by (auto simp add: restart_box_cases written_append unreleased_stop split: option.splits)

lemma runScript_split:
  obtains img runtime p2 s2 gr p3 s3 where
    "restart_box w (setVolumes [\<lparr>hostPath = dir, guestPath = dir, readOnly = Some False\<rparr>] p, s)
       = (p2, s2)"
    "getOrCreateBox w img (p2, s2) = (gr, p3, s3)"
    "boxlite_runtime (toLowerCase (p_extname (path h) fp)) = (img, runtime)"
    "boxlite_runScript h w fp dir options (p, s) =
       (case gr of
          Inl e \<Rightarrow> (Inl e, p3, s3)
        | Inr b \<Rightarrow> (fst (run_in_box h w b dir runtime fp options s3), p3,
                    snd (run_in_box h w b dir runtime fp options s3)))"
proof -
  let ?p1 = "setVolumes [\<lparr>hostPath = dir, guestPath = dir, readOnly = Some False\<rparr>] p"
  obtain img runtime where rt: "boxlite_runtime (toLowerCase (p_extname (path h) fp)) = (img, runtime)"
    by (cases "boxlite_runtime (toLowerCase (p_extname (path h) fp))") auto
  obtain p2 s2 where r: "restart_box w (?p1, s) = (p2, s2)"
    by (cases "restart_box w (?p1, s)") auto
  obtain gr p3 s3 where g: "getOrCreateBox w img (p2, s2) = (gr, p3, s3)"
    by (cases "getOrCreateBox w img (p2, s2)") auto
  have "boxlite_runScript h w fp dir options (p, s) =
       (case gr of
          Inl e \<Rightarrow> (Inl e, p3, s3)
        | Inr b \<Rightarrow> (fst (run_in_box h w b dir runtime fp options s3), p3,
                    snd (run_in_box h w b dir runtime fp options s3)))"
    by (simp add: boxlite_runScript_def rt r g Let_def split: sum.splits prod.splits)
  with rt r g show ?thesis using that by blast
qed

lemma runScript_written:
  "set (written (trace (snd (snd (boxlite_runScript h w fp dir options (p, s))))))
     \<subseteq> set (written (trace s))
       \<union> {f. f \<noteq> [] \<and> startsWith f dir \<and> \<not> endsWith f (p_basename (path h) fp)}"
proof -
  obtain img runtime p2 s2 gr p3 s3 where
    r: "restart_box w (setVolumes [\<lparr>hostPath = dir, guestPath = dir, readOnly = Some False\<rparr>] p, s)
       = (p2, s2)"
    and g: "getOrCreateBox w img (p2, s2) = (gr, p3, s3)"
    and eq: "boxlite_runScript h w fp dir options (p, s) =
       (case gr of
          Inl e \<Rightarrow> (Inl e, p3, s3)
        | Inr b \<Rightarrow> (fst (run_in_box h w b dir runtime fp options s3), p3,
                    snd (run_in_box h w b dir runtime fp options s3)))"
    by (rule runScript_split)
  have w3: "written (trace s3) = written (trace s)"
    using restart_box_observed(2) [OF r] getOrCreateBox_observed(2) [OF g] by simp
  show ?thesis
  proof (cases gr)
    case (Inl e)
    then show ?thesis using eq w3 by simp
  next
    case (Inr b)
    then show ?thesis
      using eq w3 run_in_box_observed(4) [of h w b dir runtime fp options s3] by simp
  qed
qed

lemma runScript_unreleased:
  "unreleased (trace (snd (snd (boxlite_runScript h w fp dir options (p, s)))))
     - set_option (box (fst (snd (boxlite_runScript h w fp dir options (p, s)))))
   \<subseteq> unreleased (trace s) - set_option (box p)"
proof -
  obtain img runtime p2 s2 gr p3 s3 where
    r: "restart_box w (setVolumes [\<lparr>hostPath = dir, guestPath = dir, readOnly = Some False\<rparr>] p, s)
       = (p2, s2)"
    and g: "getOrCreateBox w img (p2, s2) = (gr, p3, s3)"
    and eq: "boxlite_runScript h w fp dir options (p, s) =
       (case gr of
          Inl e \<Rightarrow> (Inl e, p3, s3)
        | Inr b \<Rightarrow> (fst (run_in_box h w b dir runtime fp options s3), p3,
                    snd (run_in_box h w b dir runtime fp options s3)))"
    by (rule runScript_split)
  have l2: "unreleased (trace s2) \<subseteq> unreleased (trace s) - set_option (box p)"
    using restart_box_observed(4) [OF r] by (simp add: setVolumes_def)
  have l3: "unreleased (trace s3) - set_option (box p3) \<subseteq> unreleased (trace s) - set_option (box p)"
    using getOrCreateBox_unreleased [OF g] l2 by blast
  show ?thesis
  proof (cases gr)
    case (Inl e)
    then show ?thesis using eq l3 by simp
  next
    case (Inr b)
    have "unreleased (trace (snd (run_in_box h w b dir runtime fp options s3))) = unreleased (trace s3)"
      by (simp add: unreleased_def run_in_box_observed)
    then show ?thesis using eq l3 Inr by simp
  qed
qed

lemma runScript_stops_first:
  assumes "box p = Some b"
  shows "prefix (trace s @ [stop_effect w (length (trace s)) b])
           (trace (snd (snd (boxlite_runScript h w fp dir options (p, s)))))"
proof -
  obtain img runtime p2 s2 gr p3 s3 where
    r: "restart_box w (setVolumes [\<lparr>hostPath = dir, guestPath = dir, readOnly = Some False\<rparr>] p, s)
       = (p2, s2)"
    and g: "getOrCreateBox w img (p2, s2) = (gr, p3, s3)"
    and eq: "boxlite_runScript h w fp dir options (p, s) =
       (case gr of
          Inl e \<Rightarrow> (Inl e, p3, s3)
        | Inr b \<Rightarrow> (fst (run_in_box h w b dir runtime fp options s3), p3,
                    snd (run_in_box h w b dir runtime fp options s3)))"
    by (rule runScript_split)
  have t2: "trace s2 = trace s @ [stop_effect w (length (trace s)) b]"
    using restart_box_observed(3) [OF r] assms by (simp add: setVolumes_def)
  have p3: "prefix (trace s @ [stop_effect w (length (trace s)) b]) (trace s3)"
    using getOrCreateBox_observed(1) [OF g] t2 by simp
  show ?thesis
  proof (cases gr)
    case (Inl e)
    then show ?thesis using eq p3 by simp
  next
    case (Inr b')
    then show ?thesis
      using eq p3 run_in_box_observed(1) [of s3 h w b' dir runtime fp options]
        prefix_order.trans by fastforce
  qed
qed

section \<open>The listeners of the Codex provider\<close>

lemma on_event_settled_mono: "settled L = Some r \<Longrightarrow> settled (on_event t e L) = Some r"
  by (cases e) (simp_all add: resolve_def)

lemma on_event_final: "is_final e \<Longrightarrow> settled (on_event t e L) \<noteq> None"
  by (cases e) (simp_all add: resolve_def)

lemma on_event_not_final:
  "\<not> is_final e \<Longrightarrow> settled (on_event t e L) = settled L \<and> timer (on_event t e L) = timer L"
  by (cases e) simp_all

lemma on_event_kills [simp]: "kills (on_event t e L) = kills L"
  by (cases e) (simp_all add: resolve_def)

lemma after_signal_settled_mono:
  "settled L = Some r \<Longrightarrow> settled (after_signal t0 evs L) = Some r"
  by (induction evs arbitrary: L) (auto simp add: on_event_settled_mono)

lemma after_signal_kills [simp]: "kills (after_signal t0 evs L) = kills L"
  by (induction evs arbitrary: L) auto

lemma after_signal_settles:
  "closes evs \<Longrightarrow> settled (after_signal t0 evs L) \<noteq> None"
proof (induction evs arbitrary: L)
  case Nil
  then show ?case by (simp add: closes_def)
next
  case (Cons te evs)
  obtain dt e where te: "te = (dt, e)" by (cases te)
  show ?case
  proof (cases "is_final e")
    case True
    then obtain r where "settled (on_event (t0 + dt) e L) = Some r"
      using on_event_final by fastforce
    then show ?thesis using te by (simp add: after_signal_settled_mono)
  next
    case False
    with Cons.prems te have "closes evs" by (simp add: closes_def)
    then show ?thesis using Cons.IH te by simp
  qed
qed

lemma after_signal_pending:
  "\<not> closes evs \<Longrightarrow> settled (after_signal t0 evs L) = settled L"
proof (induction evs arbitrary: L)
  case Nil
  then show ?case by simp
next
  case (Cons te evs)
  obtain dt e where te: "te = (dt, e)" by (cases te)
  from Cons.prems te have nf: "\<not> is_final e" and rest: "\<not> closes evs"
    by (auto simp add: closes_def)
  show ?case using Cons.IH [OF rest] te on_event_not_final [OF nf] by simp
qed

text \<open>What is on \<open>stderr\<close> when the signal is sent stays in the result.\<close>

lemma on_event_keeps_marker:
  assumes "(settled L = None \<and> sublist m (acc_stderr L))
         \<or> (\<exists>r. settled L = Some r \<and> sublist m (stderr r))"
  shows "(settled (on_event t e L) = None \<and> sublist m (acc_stderr (on_event t e L)))
       \<or> (\<exists>r. settled (on_event t e L) = Some r \<and> sublist m (stderr r))"
  using assms
  by (cases e) (auto simp add: resolve_def sublist_append)

lemma after_signal_keeps_marker:
  assumes "(settled L = None \<and> sublist m (acc_stderr L))
         \<or> (\<exists>r. settled L = Some r \<and> sublist m (stderr r))"
  shows "(settled (after_signal t0 evs L) = None \<and> sublist m (acc_stderr (after_signal t0 evs L)))
       \<or> (\<exists>r. settled (after_signal t0 evs L) = Some r \<and> sublist m (stderr r))"
  using assms
proof (induction evs arbitrary: L)
  case Nil
  then show ?case by simp
next
  case (Cons te evs)
  obtain dt e where te: "te = (dt, e)" by (cases te)
  show ?case
    using Cons.IH [OF on_event_keeps_marker [OF Cons.prems, of "t0 + dt" e]] te by simp
qed

lemma on_timer_settled [simp]: "settled (on_timer d L) = settled L"
  by (simp add: on_timer_def)

lemma run_child_settled_mono:
  "settled L = Some r \<Longrightarrow> settled (run_child evs sig L) = Some r"
  by (induction evs sig L rule: run_child.induct)
     (auto simp add: on_event_settled_mono after_signal_settled_mono split: option.splits)

lemma run_child_settles:
  "closes evs \<Longrightarrow> closes sig \<Longrightarrow> settled (run_child evs sig L) \<noteq> None"
proof (induction evs sig L rule: run_child.induct)
  case (1 sig L)
  then show ?case by (simp add: closes_def)
next
  case (2 t e es sig L)
  show ?case
  proof (cases "is_final e")
    case True
    then obtain r where r: "settled (on_event t e L) = Some r"
      using on_event_final by fastforce
    show ?thesis
      using 2(4) run_child_settled_mono [OF r] after_signal_settles
      by (auto split: option.splits)
  next
    case False
    with 2(3) have "closes es" by (simp add: closes_def)
    then show ?thesis
      using 2 after_signal_settles by (auto split: option.splits)
  qed
qed

text \<open>
  A timer that expires before the child has ended runs its callback: the events before
  the deadline are collected, none of them settles the promise, the signal is sent at
  the deadline and the marker is put on \<open>stderr\<close>.
\<close>

lemma run_child_timer_fires:
  assumes "timer L = Some d" and "settled L = None" and "\<not> closes_before d evs"
  shows "\<exists>L'. run_child evs sig L = after_signal d sig (on_timer d L')
            \<and> settled L' = None \<and> kills L' = kills L"
  using assms
proof (induction evs arbitrary: L)
  case Nil
  then show ?case by auto
next
  case (Cons te evs)
  obtain t e where te: "te = (t, e)" by (cases te)
  show ?case
  proof (cases "d \<le> t")
    case True
    then show ?thesis using Cons.prems te by auto
  next
    case False
    with Cons.prems(3) te have nf: "\<not> is_final e" and rest: "\<not> closes_before d evs"
      by (auto simp add: closes_before_def)
    have "timer (on_event t e L) = Some d" "settled (on_event t e L) = None"
      using on_event_not_final [OF nf] Cons.prems by simp_all
    from Cons.IH [OF this rest]
    show ?thesis using False Cons.prems(1) te by simp
  qed
qed

lemma attach_expiry:
  assumes "\<not> closes_before d (natural c)"
  shows "kills (attach (Some d) c) = [d]"
    and "closes (on_sigterm c) \<Longrightarrow>
         \<exists>r. settled (attach (Some d) c) = Some r \<and> sublist timed_out_marker (stderr r)"
    and "\<not> closes (on_sigterm c) \<Longrightarrow> settled (attach (Some d) c) = None"
proof -
  let ?L0 = "\<lparr>acc_stdout = [], acc_stderr = [], timer = Some d, kills = [], settled = None\<rparr>"
  obtain L' where L': "run_child (natural c) (on_sigterm c) ?L0
                        = after_signal d (on_sigterm c) (on_timer d L')"
    "settled L' = None" "kills L' = []"
    using run_child_timer_fires [of ?L0 d "natural c" "on_sigterm c"] assms by auto
  show "kills (attach (Some d) c) = [d]"
    using L' by (simp add: attach_def on_timer_def)
  have m: "(settled (on_timer d L') = None \<and> sublist timed_out_marker (acc_stderr (on_timer d L')))
         \<or> (\<exists>r. settled (on_timer d L') = Some r \<and> sublist timed_out_marker (stderr r))"
    using L'(2) by (simp add: on_timer_def)
  show "\<exists>r. settled (attach (Some d) c) = Some r \<and> sublist timed_out_marker (stderr r)"
    if "closes (on_sigterm c)"
    using after_signal_keeps_marker [OF m, of d "on_sigterm c"]
      after_signal_settles [OF that, of d "on_timer d L'"] L'(1)
    by (auto simp add: attach_def)
  show "settled (attach (Some d) c) = None" if "\<not> closes (on_sigterm c)"
    using after_signal_pending [OF that, of d "on_timer d L'"] L'
    by (simp add: attach_def)
qed

lemma attach_no_timer: "kills (attach None c) = []"
proof -
  have "timer L = None \<Longrightarrow> kills (run_child evs sig L) = kills L \<and> timer (run_child evs sig L) = None"
    for evs sig L
  proof (induction evs arbitrary: L)
    case Nil
    then show ?case by simp
  next
    case (Cons te evs)
    obtain t e where te: "te = (t, e)" by (cases te)
    have "timer (on_event t e L) = None"
      using Cons.prems by (cases e) (simp_all add: resolve_def)
    from Cons.IH [OF this] show ?case using Cons.prems te by simp
  qed
  then show ?thesis by (simp add: attach_def)
qed

lemma promise_of_not_rejected: "promise_of L \<noteq> Rejected e"
  by (simp add: promise_of_def split: option.splits)

lemma promise_of_Resolved: "promise_of L = Resolved r \<longleftrightarrow> settled L = Some r"
  by (simp add: promise_of_def split: option.splits)

lemma setTimeout_delay_pos: "0 < setTimeout_delay ms"
  by (simp add: setTimeout_delay_def)

lemma attach_spawn_error:
  assumes "natural c = (0, SpawnError msg) # es" and "deadline = None \<or> (\<exists>d>0. deadline = Some d)"
  shows "settled (attach deadline c) =
           Some \<lparr>stdout = [], stderr = CHR 0x0A # msg, exitCode = 1, duration = 0\<rparr>"
  using assms
  by (auto simp add: attach_def resolve_def intro!: run_child_settled_mono)

lemma arm_timer_cases: "arm_timer ms = None \<or> (\<exists>d>0. arm_timer ms = Some d)"
  by (simp add: arm_timer_def setTimeout_delay_pos split: option.splits)

text \<open>What \<open>spawn_and_listen\<close> gives when \<open>spawn\<close> returns a child and when it throws.\<close>

lemma spawned_spawn_and_listen [simp]: "spawned (spawn_and_listen h req cmds d) = Some req"
  by (simp add: spawn_and_listen_def Let_def split: sum.splits)

lemma installed_spawn_and_listen [simp]: "installed (spawn_and_listen h req cmds d) = cmds"
  by (simp add: spawn_and_listen_def Let_def split: sum.splits)

lemma spawn_and_listen_child:
  assumes "spawn h req = Inr proc"
  shows "returned (spawn_and_listen h req cmds d) = promise_of (attach d proc)"
    and "sent_sigterm (spawn_and_listen h req cmds d) = kills (attach d proc)"
  using assms by (simp_all add: spawn_and_listen_def Let_def)

lemma spawn_and_listen_throws:
  assumes "spawn h req = Inl e"
  shows "returned (spawn_and_listen h req cmds d) = Rejected e"
    and "sent_sigterm (spawn_and_listen h req cmds d) = []"
  using assms by (simp_all add: spawn_and_listen_def)

lemma spawn_and_listen_no_timer: "sent_sigterm (spawn_and_listen h req cmds None) = []"
  by (simp add: spawn_and_listen_def Let_def attach_no_timer split: sum.splits)

text \<open>The ways in which \<open>exec\<close> and \<open>runScript\<close> of the Codex provider end.\<close>

lemma codex_exec_cases:
  "(codex_exec h c options = not_installed ''Codex CLI is not installed''
      \<and> (codexPath c = None \<or> codexPath c = Some []))
   \<or> (\<exists>req. codexPath c = Some (sp_file req) \<and> sp_file req \<noteq> []
         \<and> codex_exec h c options = spawn_and_listen h req [] (arm_timer (timeout options)))"
proof (cases "codexPath c")
  case None
  then show ?thesis by (simp add: codex_exec_def)
next
  case (Some cp)
  show ?thesis
  proof (cases "cp = []")
    case True
    with Some show ?thesis by (simp add: codex_exec_def)
  next
    case False
    with Some show ?thesis
      by (intro disjI2 exI [of _ "the (spawned (codex_exec h c options))"])
         (simp add: codex_exec_def Let_def)
  qed
qed

lemma codex_exec_spawned:
  assumes "spawned (codex_exec h c options) = Some req"
  shows "codex_exec h c options = spawn_and_listen h req [] (arm_timer (timeout options))"
  using codex_exec_cases [of h c options] assms by (auto simp add: not_installed_def)

lemma codex_runScript_cases:
  "(codex_runScript h c fp dir options =
        not_installed ''Codex CLI is not installed. Install with: npm install -g @openai/codex''
      \<and> (codexPath c = None \<or> codexPath c = Some []))
   \<or> (\<exists>e. spawned (codex_runScript h c fp dir options) = None
         \<and> packages_of options \<noteq> [] \<and> codexPath c \<noteq> None
         \<and> execSync h (codex_install_command
               (snd (snd (codex_runtime (toLowerCase (p_extname (path h) fp)) fp)))
               (packages_of options)) (Some dir) = Inl e
         \<and> installed (codex_runScript h c fp dir options) =
             [codex_install_command
               (snd (snd (codex_runtime (toLowerCase (p_extname (path h) fp)) fp)))
               (packages_of options)]
         \<and> returned (codex_runScript h c fp dir options) =
             Resolved \<lparr>stdout = [], stderr = ''Failed to install packages: '' @ error_text e,
                       exitCode = 1, duration = 0\<rparr>)
   \<or> (\<exists>req. codexPath c = Some (sp_file req) \<and> sp_file req \<noteq> []
         \<and> sp_args req =
             [''sandbox'', sandboxSubcommand h, ''--full-auto'', ''--'',
              fst (codex_runtime (toLowerCase (p_extname (path h) fp)) fp)]
             @ fst (snd (codex_runtime (toLowerCase (p_extname (path h) fp)) fp))
             @ args_of options
         \<and> (packages_of options \<noteq> [] \<longrightarrow>
              (\<exists>out. execSync h (codex_install_command
                 (snd (snd (codex_runtime (toLowerCase (p_extname (path h) fp)) fp)))
                 (packages_of options)) (Some dir) = Inr out))
         \<and> codex_runScript h c fp dir options =
             spawn_and_listen h req
               (if packages_of options \<noteq> [] then
                  [codex_install_command
                    (snd (snd (codex_runtime (toLowerCase (p_extname (path h) fp)) fp)))
                    (packages_of options)]
                else [])
               (Some (setTimeout_delay (script_timeout options))))"
proof (cases "codexPath c")
  case None
  then show ?thesis by (simp add: codex_runScript_def)
next
  case (Some cp)
  show ?thesis
  proof (cases "cp = []")
    case True
    with Some show ?thesis by (simp add: codex_runScript_def)
  next
    case False
    obtain runtime rargs isPython where
      rt: "codex_runtime (toLowerCase (p_extname (path h) fp)) fp = (runtime, rargs, isPython)"
      by (cases "codex_runtime (toLowerCase (p_extname (path h) fp)) fp") auto
    show ?thesis
    proof (cases "packages_of options = []")
      case True
      with Some False rt show ?thesis
        by (intro disjI2 exI [of _ "the (spawned (codex_runScript h c fp dir options))"])
           (simp add: codex_runScript_def Let_def)
    next
      case pk: False
      show ?thesis
      proof (cases "execSync h (codex_install_command isPython (packages_of options)) (Some dir)")
        case (Inl e)
        with Some False rt pk show ?thesis
          by (simp add: codex_runScript_def Let_def)
      next
        case (Inr out)
        with Some False rt pk show ?thesis
          by (intro disjI2 exI [of _ "the (spawned (codex_runScript h c fp dir options))"])
             (simp add: codex_runScript_def Let_def)
      qed
    qed
  qed
qed

lemma codex_runScript_spawned:
  assumes "spawned (codex_runScript h c fp dir options) = Some req"
  shows "\<exists>cmds. codex_runScript h c fp dir options =
           spawn_and_listen h req cmds (Some (setTimeout_delay (script_timeout options)))"
  using codex_runScript_cases [of h c fp dir options] assms
  by (auto simp add: not_installed_def)

section \<open>exec returns a result\<close>

lemma boxlite_exec_returns: "\<exists>r. fst (boxlite_exec w options st) = Inr r"
  by (auto simp add: boxlite_exec_def Let_def split: prod.splits sum.splits)

lemma boxlite_exec_not_loaded:
  assumes "SimpleBox (snd st) = None" and "box (fst st) = None"
  shows "fst (boxlite_exec w options st) =
           Inr \<lparr>stdout = [], stderr = ''Error: BoxLite is not loaded'', exitCode = 1, duration = 0\<rparr>"
  using assms
  by (simp add: boxlite_exec_def getOrCreateBox_def create_box_def exec_caught_def new_Error_def
      or_str_def or_num_def)

lemma boxlite_exec_construct_fails:
  assumes "box (fst st) = None" and "SimpleBox (snd st) \<noteq> None"
    and "construct w (length (trace (snd st))) (create_options (fst st) (targetImage options (fst st)))
           = Some err"
  shows "fst (boxlite_exec w options st) = Inr (exec_caught err)"
  using assms
  by (auto simp add: boxlite_exec_def getOrCreateBox_def create_box_def do_new_def)

lemma exec_caught_nonzero: "exitCode (exec_caught err) \<noteq> 0"
  by (simp add: exec_caught_def or_num_def split: option.splits)

lemma exec_caught_stderr: "to_string err \<noteq> [] \<Longrightarrow> stderr (exec_caught err) \<noteq> []"
  by (simp add: exec_caught_def or_str_def split: option.splits)

lemma codex_exec_not_rejected:
  assumes "spawned (codex_exec h c options) = Some req" and "spawn h req = Inr proc"
  shows "returned (codex_exec h c options) \<noteq> Rejected e"
  using codex_exec_spawned [OF assms(1)] spawn_and_listen_child(1) [OF assms(2)]
  by (simp add: promise_of_not_rejected)

lemma codex_exec_not_installed:
  "codexPath c = None \<Longrightarrow>
   returned (codex_exec h c options) =
     Resolved \<lparr>stdout = [], stderr = ''Codex CLI is not installed'', exitCode = 1, duration = 0\<rparr>"
  by (simp add: codex_exec_def not_installed_def)

lemma codex_exec_spawn_error:
  assumes "spawned (codex_exec h c options) = Some req" and "spawn h req = Inr proc"
    and "natural proc = (0, SpawnError msg) # es"
  shows "returned (codex_exec h c options) =
     Resolved \<lparr>stdout = [], stderr = CHR 0x0A # msg, exitCode = 1, duration = 0\<rparr>"
  using codex_exec_spawned [OF assms(1)] spawn_and_listen_child(1) [OF assms(2)]
    attach_spawn_error [OF assms(3) arm_timer_cases [of "timeout options"]]
  by (simp add: promise_of_Resolved)

lemma codex_exec_resolves:
  assumes "spawned (codex_exec h c options) = Some req" and "spawn h req = Inr proc"
    and "closes (natural proc)" and "closes (on_sigterm proc)"
  shows "\<exists>r. returned (codex_exec h c options) = Resolved r"
  using codex_exec_spawned [OF assms(1)] spawn_and_listen_child(1) [OF assms(2)]
    run_child_settles [OF assms(3,4)]
  by (auto simp add: promise_of_Resolved attach_def)


lemma bare_host_spawn [simp]: "spawn (bare_host c) req = Inr c"
  by (simp add: bare_host_def)

lemma sleep_request:
  "spawned (codex_exec (bare_host c) codex_installed (sleep_options ms)) =
     Some \<lparr>sp_file = ''/usr/local/bin/codex'',
           sp_args = [''sandbox'', ''linux'', ''--full-auto'', ''--'', ''sleep'', ''5''],
           sp_cwd = ''/w'', sp_env = Map.empty\<rparr>"
  by (simp add: codex_exec_def codex_installed_def sleep_options_def bare_host_def needsShell_def
      sandboxSubcommand_def or_str_def Let_def)



section \<open>Timeouts of the Codex provider\<close>

lemma codex_exec_expiry:
  assumes "spawned (codex_exec h c options) = Some req" and "spawn h req = Inr proc"
    and "timeout options = Some ms" and "ms \<noteq> 0"
    and "\<not> closes_before (setTimeout_delay ms) (natural proc)"
  shows "sent_sigterm (codex_exec h c options) = [setTimeout_delay ms]"
    and "returned (codex_exec h c options) \<noteq> Rejected e"
    and "closes (on_sigterm proc) \<Longrightarrow>
         \<exists>r. returned (codex_exec h c options) = Resolved r \<and> sublist timed_out_marker (stderr r)"
    and "\<not> closes (on_sigterm proc) \<Longrightarrow> returned (codex_exec h c options) = Pending"
proof -
  have t: "arm_timer (timeout options) = Some (setTimeout_delay ms)"
    using assms(3,4) by (simp add: arm_timer_def)
  have r: "returned (codex_exec h c options) =
             promise_of (attach (Some (setTimeout_delay ms)) proc)"
    and k: "sent_sigterm (codex_exec h c options) =
             kills (attach (Some (setTimeout_delay ms)) proc)"
    using codex_exec_spawned [OF assms(1)] spawn_and_listen_child [OF assms(2)] t by simp_all
  show "sent_sigterm (codex_exec h c options) = [setTimeout_delay ms]"
    using k attach_expiry(1) [OF assms(5)] by simp
  show "returned (codex_exec h c options) \<noteq> Rejected e"
    using r by (simp add: promise_of_not_rejected)
  show "\<exists>r. returned (codex_exec h c options) = Resolved r \<and> sublist timed_out_marker (stderr r)"
    if "closes (on_sigterm proc)"
    using r attach_expiry(2) [OF assms(5) that] by (simp add: promise_of_Resolved)
  show "returned (codex_exec h c options) = Pending" if "\<not> closes (on_sigterm proc)"
    using r attach_expiry(3) [OF assms(5) that] by (simp add: promise_of_def)
qed

lemma codex_runScript_expiry:
  assumes "spawned (codex_runScript h c fp dir sopts) = Some req" and "spawn h req = Inr proc"
    and "\<not> closes_before (setTimeout_delay (script_timeout sopts)) (natural proc)"
  shows "sent_sigterm (codex_runScript h c fp dir sopts) = [setTimeout_delay (script_timeout sopts)]"
    and "returned (codex_runScript h c fp dir sopts) \<noteq> Rejected e"
    and "closes (on_sigterm proc) \<Longrightarrow>
         \<exists>r. returned (codex_runScript h c fp dir sopts) = Resolved r
              \<and> sublist timed_out_marker (stderr r)"
proof -
  obtain cmds where eq: "codex_runScript h c fp dir sopts =
      spawn_and_listen h req cmds (Some (setTimeout_delay (script_timeout sopts)))"
    using codex_runScript_spawned [OF assms(1)] by blast
  have r: "returned (codex_runScript h c fp dir sopts) =
             promise_of (attach (Some (setTimeout_delay (script_timeout sopts))) proc)"
    and k: "sent_sigterm (codex_runScript h c fp dir sopts) =
             kills (attach (Some (setTimeout_delay (script_timeout sopts))) proc)"
    using eq spawn_and_listen_child [OF assms(2)] by simp_all
  show "sent_sigterm (codex_runScript h c fp dir sopts) = [setTimeout_delay (script_timeout sopts)]"
    using k attach_expiry(1) [OF assms(3)] by simp
  show "returned (codex_runScript h c fp dir sopts) \<noteq> Rejected e"
    using r by (simp add: promise_of_not_rejected)
  show "\<exists>r. returned (codex_runScript h c fp dir sopts) = Resolved r
              \<and> sublist timed_out_marker (stderr r)"
    if "closes (on_sigterm proc)"
    using r attach_expiry(2) [OF assms(3) that] by (simp add: promise_of_Resolved)
qed

lemma codex_exec_no_timer:
  assumes "timeout options = None \<or> timeout options = Some 0"
  shows "sent_sigterm (codex_exec h c options) = []"
proof -
  have "arm_timer (timeout options) = None"
    using assms by (auto simp add: arm_timer_def)
  then show ?thesis
    using codex_exec_cases [of h c options]
    by (auto simp add: not_installed_def spawn_and_listen_no_timer)
qed




section \<open>Availability of the BoxLite provider\<close>

lemma loadNativeModuleDirect_cases:
  "loadNativeModuleDirect h s = (nativeModule s, s) \<and> nativeModule s \<noteq> None
   \<or> loadNativeModuleDirect h s = (None, s) \<and> nativeModule s = None
   \<or> (\<exists>m. loadNativeModuleDirect h s = (Some m, s\<lparr>nativeModule := Some m\<rparr>)
          \<and> nativeModule s = None)"
  by (auto simp add: loadNativeModuleDirect_def split: option.splits)

lemma loadNativeModuleDirect_again:
  assumes "loadNativeModuleDirect h s = (r, s1)"
  shows "loadNativeModuleDirect h s1 = (r, s1)"
  using assms by (auto simp add: loadNativeModuleDirect_def split: option.splits if_splits)

lemma loadNativeModuleDirect_frame:
  assumes "loadNativeModuleDirect h s = (r, s1)"
  shows "trace s1 = trace s" "boxliteRuntimeVerified s1 = boxliteRuntimeVerified s"
    "boxliteRuntimeError s1 = boxliteRuntimeError s" "boxliteModuleLoaded s1 = boxliteModuleLoaded s"
    "SimpleBox s1 = SimpleBox s" "nativeModule s1 = r"
  using assms by (auto simp add: loadNativeModuleDirect_def split: option.splits if_splits)

lemma loadBoxLiteModule_loaded:
  "boxliteModuleLoaded s \<Longrightarrow> loadBoxLiteModule h s = (True, s)"
  by (simp add: loadBoxLiteModule_def)

lemma loadBoxLiteModule_frame:
  assumes "loadBoxLiteModule h s = (ok, s1)"
  shows "trace s1 = trace s" "boxliteRuntimeVerified s1 = boxliteRuntimeVerified s"
    "boxliteRuntimeError s1 = boxliteRuntimeError s" "boxliteModuleLoaded s1 = ok"
proof -
  obtain r sn where n: "loadNativeModuleDirect h s = (r, sn)"
    by (cases "loadNativeModuleDirect h s") auto
  note f = loadNativeModuleDirect_frame [OF n]
  show "trace s1 = trace s" "boxliteRuntimeVerified s1 = boxliteRuntimeVerified s"
    "boxliteRuntimeError s1 = boxliteRuntimeError s" "boxliteModuleLoaded s1 = ok"
    using assms n f
    by (auto simp add: loadBoxLiteModule_def split: if_splits sum.splits)
qed

text \<open>On an unchanged host a module that could not be loaded cannot be loaded later.\<close>

lemma loadBoxLiteModule_fails_again:
  assumes "loadBoxLiteModule h s = (False, s1)"
  shows "loadBoxLiteModule h s1 = (False, s1)"
proof -
  obtain r sn where n: "loadNativeModuleDirect h s = (r, sn)"
    by (cases "loadNativeModuleDirect h s") auto
  note f = loadNativeModuleDirect_frame [OF n]
  have s1: "s1 = sn" and nl: "\<not> boxliteModuleLoaded s"
    and imp: "\<exists>e. import_boxlite h = Inl e"
    and nj: "\<not> (r \<noteq> None \<and> (case nativeModule sn of None \<Rightarrow> False | Some m \<Rightarrow> has_JsBoxlite m))"
    using assms n by (auto simp add: loadBoxLiteModule_def split: if_splits sum.splits)
  have "loadNativeModuleDirect h sn = (r, sn)"
    by (rule loadNativeModuleDirect_again [OF n])
  then show ?thesis
    using s1 nl imp nj f(4) by (auto simp add: loadBoxLiteModule_def)
qed

lemma constructions_do_new:
  "constructions (trace (snd (do_new w opts s))) = Suc (constructions (trace s))"
  by (simp add: do_new_def constructions_append split: option.splits)

lemma verifyBoxLiteRuntime_cached:
  "boxliteRuntimeVerified s \<Longrightarrow> verifyBoxLiteRuntime w s = (boxliteRuntimeError s = None, s)"
  by (simp add: verifyBoxLiteRuntime_def)

lemma verifyBoxLiteRuntime_result:
  assumes "verifyBoxLiteRuntime w s = (ok, s1)"
  shows "boxliteRuntimeVerified s1" "ok = (boxliteRuntimeError s1 = None)"
    "boxliteModuleLoaded s1 = boxliteModuleLoaded s"
    "constructions (trace s1) \<le> Suc (constructions (trace s))"
  using assms
  by (auto simp add: verifyBoxLiteRuntime_def verification_failed_def do_new_def do_exec_def
      do_stop_def constructions_append
      split: if_splits prod.splits sum.splits option.splits)

lemma loadBoxLite_cached:
  assumes "boxliteRuntimeVerified s" and "loadBoxLite h w s = (ok, s1)"
  shows "boxliteRuntimeVerified s1" "boxliteRuntimeError s1 = boxliteRuntimeError s"
    "trace s1 = trace s"
proof -
  obtain m sm where m: "loadBoxLiteModule h s = (m, sm)"
    by (cases "loadBoxLiteModule h s") auto
  note f = loadBoxLiteModule_frame [OF m]
  have "s1 = sm"
    using assms m f verifyBoxLiteRuntime_cached [of sm w]
    by (auto simp add: loadBoxLite_def split: if_splits)
  then show "boxliteRuntimeVerified s1" "boxliteRuntimeError s1 = boxliteRuntimeError s"
    "trace s1 = trace s"
    using f assms(1) by simp_all
qed

lemma loadBoxLite_result:
  assumes "loadBoxLite h w s = (ok, s1)"
  shows "boxliteModuleLoaded s1 \<Longrightarrow> boxliteRuntimeVerified s1 \<and> ok = (boxliteRuntimeError s1 = None)"
    and "\<not> boxliteModuleLoaded s1 \<Longrightarrow> \<not> ok \<and> loadBoxLiteModule h s = (False, s1)"
    and "constructions (trace s1) \<le> Suc (constructions (trace s))"
    and "\<not> boxliteRuntimeVerified s1 \<Longrightarrow> trace s1 = trace s"
proof -
  obtain m sm where m: "loadBoxLiteModule h s = (m, sm)"
    by (cases "loadBoxLiteModule h s") auto
  note f = loadBoxLiteModule_frame [OF m]
  show "boxliteRuntimeVerified s1 \<and> ok = (boxliteRuntimeError s1 = None)" if "boxliteModuleLoaded s1"
    using assms m f that verifyBoxLiteRuntime_result [of w sm ok s1]
    by (auto simp add: loadBoxLite_def split: if_splits)
  show "\<not> ok \<and> loadBoxLiteModule h s = (False, s1)" if "\<not> boxliteModuleLoaded s1"
    using assms m f that verifyBoxLiteRuntime_result [of w sm ok s1]
    by (auto simp add: loadBoxLite_def split: if_splits)
  show "constructions (trace s1) \<le> Suc (constructions (trace s))"
    using assms m f verifyBoxLiteRuntime_result [of w sm ok s1]
    by (auto simp add: loadBoxLite_def split: if_splits)
  show "trace s1 = trace s" if "\<not> boxliteRuntimeVerified s1"
    using assms m f that verifyBoxLiteRuntime_result [of w sm ok s1]
    by (auto simp add: loadBoxLite_def split: if_splits)
qed

lemma loadBoxLite_again:
  assumes "loadBoxLite h w s = (ok, s1)" and "boxliteModuleLoaded s1"
  shows "loadBoxLite h' w' s1 = (ok, s1)"
  using loadBoxLite_result(1) [OF assms] assms(2)
  by (simp add: loadBoxLite_def loadBoxLiteModule_loaded verifyBoxLiteRuntime_cached)

lemma loadBoxLite_twice:
  assumes "loadBoxLite h w s = (ok, s1)" and "loadBoxLite h' w' s1 = (ok', s2)"
  shows "constructions (trace s2) \<le> Suc (constructions (trace s))"
    and "ok \<Longrightarrow> ok'"
    and "boxliteModuleLoaded s1 \<Longrightarrow> ok' = ok \<and> s2 = s1"
    and "h' = h \<Longrightarrow> ok' = ok"
proof -
  show l: "ok' = ok \<and> s2 = s1" if "boxliteModuleLoaded s1"
    using loadBoxLite_again [OF assms(1) that, of h' w'] assms(2) by simp
  show "ok'" if ok
    using l loadBoxLite_result(2) [OF assms(1)] that by blast
  show "constructions (trace s2) \<le> Suc (constructions (trace s))"
  proof (cases "boxliteRuntimeVerified s1")
    case True
    then show ?thesis
      using loadBoxLite_cached(3) [OF True assms(2)] loadBoxLite_result(3) [OF assms(1)] by simp
  next
    case False
    then show ?thesis
      using loadBoxLite_result(4) [OF assms(1)] loadBoxLite_result(3) [OF assms(2)] by simp
  qed
  show "ok' = ok" if "h' = h"
  proof (cases "boxliteModuleLoaded s1")
    case True
    then show ?thesis using l by simp
  next
    case False
    then have a: "\<not> ok" and b: "loadBoxLiteModule h s = (False, s1)"
      using loadBoxLite_result(2) [OF assms(1)] by simp_all
    have "loadBoxLiteModule h s1 = (False, s1)"
      by (rule loadBoxLiteModule_fails_again [OF b])
    then have "\<not> ok'"
      using assms(2) that by (simp add: loadBoxLite_def)
    then show ?thesis using a by simp
  qed
qed

lemma boxlite_isAvailable_eq:
  "boxlite_isAvailable h w st = (fst (loadBoxLite h w (snd st)), (fst st, snd (loadBoxLite h w (snd st))))"
  by (simp add: boxlite_isAvailable_def split: prod.splits)


lemma search_native_nothing: "\<forall>p. \<not> existsSync h p \<Longrightarrow> search_native h n dirs = None"
  by (induction dirs) (simp_all add: Let_def)

lemma loadNativeModuleDirect_nothing:
  assumes "\<forall>p. \<not> existsSync h p" and "\<forall>m x. require h m \<noteq> Inr x" and "nativeModule s = None"
  shows "loadNativeModuleDirect h s = (None, s)"
proof -
  have "npm_native h = None"
    using assms(2) by (auto simp add: npm_native_def split: sum.splits)
  then show ?thesis
    using assms(1,3) by (simp add: loadNativeModuleDirect_def search_native_nothing)
qed

lemma bare_host_load:
  "loadBoxLiteModule (bare_host c) boxlite_module_initial = (False, boxlite_module_initial)"
proof -
  have "loadNativeModuleDirect (bare_host c) boxlite_module_initial = (None, boxlite_module_initial)"
    by (rule loadNativeModuleDirect_nothing) (simp_all add: bare_host_def boxlite_module_initial_def)
  then show ?thesis
    by (simp add: loadBoxLiteModule_def boxlite_module_initial_def bare_host_def)
qed

lemma boxlite_host_load:
  "loadBoxLiteModule (boxlite_host c) boxlite_module_initial = (True, loaded_module)"
proof -
  have "loadNativeModuleDirect (boxlite_host c) boxlite_module_initial
          = (None, boxlite_module_initial)"
    by (rule loadNativeModuleDirect_nothing)
       (simp_all add: boxlite_host_def bare_host_def boxlite_module_initial_def)
  then show ?thesis
    by (simp add: loadBoxLiteModule_def boxlite_module_initial_def boxlite_host_def bare_host_def
        loaded_module_def)
qed

lemma getCodexPath_nothing: "\<forall>p. \<not> existsSync h p \<Longrightarrow> getCodexPath h = None"
proof -
  assume a: "\<forall>p. \<not> existsSync h p"
  have f: "find (existsSync h) xs = None" for xs
    using a by (simp add: find_None_iff)
  have w: "which_codex h = None"
    using a by (auto simp add: which_codex_def Let_def split: sum.splits list.splits)
  show ?thesis
    using a f w by (simp add: getCodexPath_def getBundledCodexPath_def Let_def split: option.splits)
qed

text \<open>
  C3, as amended. Two calls of \<open>isAvailable()\<close> on the BoxLite provider, one after the
  other, the second from the state that the first left: together they try to construct
  a test box at most once, whatever the host and the runtime do at either call. On an
  unchanged host the second call returns what the first returned; a positive answer is
  repeated on any host, and so is every answer once the module is loaded (then the
  second call changes nothing). A verification result that is stored stays as it is:
  the flag stays set, the stored error is not replaced and nothing is added to the
  trace. A negative answer that comes from a module that could not be loaded is not
  stored.
\<close>

theorem isAvailable_probes_once:
  "constructions (trace (snd (snd (boxlite_isAvailable h' w' (snd (boxlite_isAvailable h w st))))))
     \<le> Suc (constructions (trace (snd st)))
   \<and> (h' = h \<longrightarrow>
        fst (boxlite_isAvailable h' w' (snd (boxlite_isAvailable h w st)))
          = fst (boxlite_isAvailable h w st))
   \<and> (fst (boxlite_isAvailable h w st) \<longrightarrow>
        fst (boxlite_isAvailable h' w' (snd (boxlite_isAvailable h w st))))
   \<and> (boxliteModuleLoaded (snd (snd (boxlite_isAvailable h w st))) \<longrightarrow>
        boxlite_isAvailable h' w' (snd (boxlite_isAvailable h w st))
          = (fst (boxlite_isAvailable h w st), snd (boxlite_isAvailable h w st)))
   \<and> (boxliteRuntimeVerified (snd st) \<longrightarrow>
        boxliteRuntimeVerified (snd (snd (boxlite_isAvailable h w st)))
        \<and> boxliteRuntimeError (snd (snd (boxlite_isAvailable h w st))) = boxliteRuntimeError (snd st)
        \<and> trace (snd (snd (boxlite_isAvailable h w st))) = trace (snd st))"
proof -
  obtain ok s1 where a: "loadBoxLite h w (snd st) = (ok, s1)"
    by (cases "loadBoxLite h w (snd st)") auto
  obtain ok' s2 where b: "loadBoxLite h' w' s1 = (ok', s2)"
    by (cases "loadBoxLite h' w' s1") auto
  have first: "boxlite_isAvailable h w st = (ok, (fst st, s1))"
    using a by (simp add: boxlite_isAvailable_eq)
  have second: "boxlite_isAvailable h' w' (fst st, s1) = (ok', (fst st, s2))"
    using b by (simp add: boxlite_isAvailable_eq)
  show ?thesis
    apply (simp only: first snd_conv fst_conv second)
    using loadBoxLite_twice [OF a b] loadBoxLite_cached [OF _ a]
    apply simp
    done
qed

lemma verify_quiet: "fst (verifyBoxLiteRuntime quiet_world loaded_module)"
  by (simp add: verifyBoxLiteRuntime_def loaded_module_def boxlite_module_initial_def do_new_def
      do_exec_def do_stop_def quiet_world_def)

lemma verify_failing: "\<not> fst (verifyBoxLiteRuntime failing_world loaded_module)"
  by (simp add: verifyBoxLiteRuntime_def loaded_module_def boxlite_module_initial_def do_new_def
      do_exec_def do_stop_def quiet_world_def failing_world_def verification_failed_def)

theorem isAvailable_probes_once_witness:
  "fst (boxlite_isAvailable (boxlite_host sleeper) quiet_world
          (new_BoxLiteProvider, boxlite_module_initial))
   \<and> fst (boxlite_isAvailable (boxlite_host sleeper) failing_world
          (snd (boxlite_isAvailable (boxlite_host sleeper) quiet_world
             (new_BoxLiteProvider, boxlite_module_initial))))
   \<and> constructions (trace (snd (snd
        (boxlite_isAvailable (boxlite_host sleeper) failing_world
          (snd (boxlite_isAvailable (boxlite_host sleeper) quiet_world
             (new_BoxLiteProvider, boxlite_module_initial))))))) \<le> 1
   \<and> \<not> fst (boxlite_isAvailable (boxlite_host sleeper) failing_world
          (new_BoxLiteProvider, boxlite_module_initial))
   \<and> \<not> fst (boxlite_isAvailable (boxlite_host sleeper) quiet_world
          (snd (boxlite_isAvailable (boxlite_host sleeper) failing_world
             (new_BoxLiteProvider, boxlite_module_initial))))"
proof -
  have pos: "fst (boxlite_isAvailable (boxlite_host sleeper) quiet_world
          (new_BoxLiteProvider, boxlite_module_initial))"
    by (simp add: boxlite_isAvailable_eq loadBoxLite_def boxlite_host_load verify_quiet)
  have neg: "\<not> fst (boxlite_isAvailable (boxlite_host sleeper) failing_world
          (new_BoxLiteProvider, boxlite_module_initial))"
    by (simp add: boxlite_isAvailable_eq loadBoxLite_def boxlite_host_load verify_failing)
  have t0: "constructions (trace (snd (new_BoxLiteProvider, boxlite_module_initial))) = 0"
    by (simp add: boxlite_module_initial_def)
  show ?thesis
    using isAvailable_probes_once [of "boxlite_host sleeper" failing_world "boxlite_host sleeper"
        quiet_world "(new_BoxLiteProvider, boxlite_module_initial)"]
      isAvailable_probes_once [of "boxlite_host sleeper" quiet_world "boxlite_host sleeper"
        failing_world "(new_BoxLiteProvider, boxlite_module_initial)"]
      pos neg t0
    by simp
qed

text \<open>
  The claim as it is written fails for a negative answer: when the module cannot be
  loaded, nothing is stored, and the next call tries to load it again. On a host
  without the BoxLite package \<open>isAvailable()\<close> answers false; once the package is there,
  the next call on the same provider answers true.
\<close>

theorem isAvailable_not_cached_counterexample:
  "fst (boxlite_isAvailable (bare_host sleeper) quiet_world
          (new_BoxLiteProvider, boxlite_module_initial)) = False
   \<and> fst (boxlite_isAvailable (boxlite_host sleeper) quiet_world
          (snd (boxlite_isAvailable (bare_host sleeper) quiet_world
             (new_BoxLiteProvider, boxlite_module_initial)))) = True"
  by (simp add: boxlite_isAvailable_eq loadBoxLite_def bare_host_load boxlite_host_load
      verify_quiet)

section \<open>init on an unavailable provider\<close>

lemma boxlite_isAvailable_repeat:
  "fst (boxlite_isAvailable h w' (snd (boxlite_isAvailable h w st)))
     = fst (boxlite_isAvailable h w st)"
proof -
  obtain ok s1 where a: "loadBoxLite h w (snd st) = (ok, s1)"
    by (cases "loadBoxLite h w (snd st)") auto
  obtain ok' s2 where b: "loadBoxLite h w' s1 = (ok', s2)"
    by (cases "loadBoxLite h w' s1") auto
  show ?thesis
    using loadBoxLite_twice(4) [OF a b] a b by (simp add: boxlite_isAvailable_eq)
qed

lemma boxlite_init_eq:
  "fst (boxlite_init h w cfg st) =
     (if fst (boxlite_isAvailable h w st) then Inr ()
      else Inl (new_Error ''BoxLite is not available on this platform''))"
  by (simp add: boxlite_init_def boxlite_isAvailable_eq Let_def split: prod.splits option.splits)

text \<open>
  C4, as amended. \<open>BoxLiteProvider.init\<close> throws the error \<open>BoxLite is not available on
  this platform\<close> exactly when its availability check answers false, also when it is
  called, on an unchanged host, after an \<open>isAvailable()\<close> that answered false.
  \<open>CodexProvider.init\<close> never throws: it stores what \<open>getCodexPath\<close> found, and when the
  CLI is missing it returns normally with no path stored, so that a later \<open>exec\<close>
  answers with exit code 1.
\<close>

theorem init_on_unavailable_provider:
  "(\<not> fst (boxlite_isAvailable h w st) \<longrightarrow>
      fst (boxlite_init h w cfg st) = Inl (new_Error ''BoxLite is not available on this platform'')
      \<and> fst (boxlite_init h w' cfg (snd (boxlite_isAvailable h w st)))
          = Inl (new_Error ''BoxLite is not available on this platform''))
   \<and> (fst (boxlite_isAvailable h w st) \<longrightarrow> fst (boxlite_init h w cfg st) = Inr ())
   \<and> codex_init h c = Inr (c\<lparr>codexPath := getCodexPath h\<rparr>)
   \<and> (\<not> fst (codex_isAvailable h c) \<longrightarrow>
        codex_init h c = Inr (c\<lparr>codexPath := None\<rparr>)
        \<and> returned (codex_exec h (c\<lparr>codexPath := None\<rparr>) options) =
            Resolved \<lparr>stdout = [], stderr = ''Codex CLI is not installed'', exitCode = 1,
                      duration = 0\<rparr>)"
  using boxlite_isAvailable_repeat [of h w' w st]
  by (auto simp add: boxlite_init_eq codex_init_def codex_isAvailable_def Let_def
      codex_exec_not_installed)

theorem init_on_unavailable_provider_witness:
  "fst (boxlite_init (bare_host sleeper) quiet_world None
          (new_BoxLiteProvider, boxlite_module_initial))
     = Inl (new_Error ''BoxLite is not available on this platform'')
   \<and> fst (boxlite_init (boxlite_host sleeper) quiet_world None
          (new_BoxLiteProvider, boxlite_module_initial)) = Inr ()
   \<and> codex_init (bare_host sleeper) codex_installed = Inr createCodexProvider"
proof -
  have neg: "\<not> fst (boxlite_isAvailable (bare_host sleeper) quiet_world
          (new_BoxLiteProvider, boxlite_module_initial))"
    by (simp add: boxlite_isAvailable_eq loadBoxLite_def bare_host_load)
  have pos: "fst (boxlite_isAvailable (boxlite_host sleeper) quiet_world
          (new_BoxLiteProvider, boxlite_module_initial))"
    by (simp add: boxlite_isAvailable_eq loadBoxLite_def boxlite_host_load verify_quiet)
  have cx: "\<not> fst (codex_isAvailable (bare_host sleeper) codex_installed)"
    by (simp add: codex_isAvailable_def getCodexPath_nothing bare_host_def)
  have a: "fst (boxlite_init (bare_host sleeper) quiet_world None
          (new_BoxLiteProvider, boxlite_module_initial))
     = Inl (new_Error ''BoxLite is not available on this platform'')
     \<and> codex_init (bare_host sleeper) codex_installed = Inr (codex_installed\<lparr>codexPath := None\<rparr>)"
    using init_on_unavailable_provider [of "bare_host sleeper" quiet_world
        "(new_BoxLiteProvider, boxlite_module_initial)" None quiet_world codex_installed]
      neg cx
    by blast
  have b: "fst (boxlite_init (boxlite_host sleeper) quiet_world None
          (new_BoxLiteProvider, boxlite_module_initial)) = Inr ()"
    using init_on_unavailable_provider [of "boxlite_host sleeper" quiet_world
        "(new_BoxLiteProvider, boxlite_module_initial)" None quiet_world codex_installed]
      pos
    by blast
  from a b show ?thesis
    by (simp add: codex_installed_def createCodexProvider_def)
qed

text \<open>
  The claim as it is written fails for the Codex provider: on a host without the CLI
  \<open>isAvailable()\<close> answers false and \<open>init()\<close> completes.
\<close>

theorem codex_init_counterexample:
  "fst (codex_isAvailable (bare_host sleeper) createCodexProvider) = False
   \<and> codex_init (bare_host sleeper) createCodexProvider = Inr createCodexProvider"
  by (simp add: codex_isAvailable_def codex_init_def getCodexPath_nothing bare_host_def
      createCodexProvider_def)

section \<open>stop and shutdown\<close>

text \<open>
  C6. \<open>stop()\<close> of the BoxLite provider never throws, also when \<open>box.stop()\<close> does, and
  leaves the provider without a box; a second \<open>stop()\<close> changes nothing: it returns
  normally, the provider and the module are as the first call left them, and no further
  \<open>box.stop()\<close> is in the trace. \<open>stop()\<close> of the Codex provider changes nothing at
  all. For both providers \<open>shutdown()\<close> is \<open>stop()\<close>.
\<close>

theorem stop_idempotent:
  "fst (boxlite_stop w st) = Inr ()
   \<and> box (fst (snd (boxlite_stop w st))) = None
   \<and> boxlite_stop w' (snd (boxlite_stop w st)) = (Inr (), snd (boxlite_stop w st))
   \<and> stopped (trace (snd (snd (boxlite_stop w' (snd (boxlite_stop w st))))))
        = stopped (trace (snd (snd (boxlite_stop w st))))
   \<and> boxlite_shutdown w st = boxlite_stop w st
   \<and> boxlite_shutdown w' (snd (boxlite_shutdown w st)) = (Inr (), snd (boxlite_stop w st))
   \<and> codex_stop c = Inr c
   \<and> codex_shutdown c = codex_stop c"
  by (cases "box (fst st)")
     (simp_all add: boxlite_stop_def boxlite_shutdown_def codex_stop_def codex_shutdown_def)

theorem stop_idempotent_witness:
  "stopped (trace (snd (snd (boxlite_stop quiet_world running_box)))) = [0]
   \<and> stopped (trace (snd (snd (boxlite_stop quiet_world
        (snd (boxlite_stop quiet_world running_box)))))) = [0]
   \<and> fst (boxlite_stop quiet_world (snd (boxlite_stop quiet_world running_box))) = Inr ()"
proof -
  have "stopped (trace (snd (snd (boxlite_stop quiet_world running_box)))) = [0]"
    by (simp add: boxlite_stop_def running_box_def new_BoxLiteProvider_def stopped_append
        stop_effect_def quiet_world_def)
  then show ?thesis
    using stop_idempotent [of quiet_world running_box quiet_world]
    by simp
qed

section \<open>The box of a BoxLite provider\<close>

lemma boxlite_exec_unreleased:
  "unreleased (trace (snd (snd (boxlite_exec w options (p, s)))))
     - set_option (box (fst (snd (boxlite_exec w options (p, s)))))
   \<subseteq> unreleased (trace s) - set_option (box p)"
proof -
  obtain gr p1 s1 where g: "getOrCreateBox w (targetImage options p) (p, s) = (gr, p1, s1)"
    by (cases "getOrCreateBox w (targetImage options p) (p, s)") auto
  have "snd (boxlite_exec w options (p, s)) = (p1, s1)
      \<or> (\<exists>b a. snd (boxlite_exec w options (p, s)) = (p1, s1\<lparr>trace := trace s1 @ [BoxExec b a]\<rparr>))"
    using g by (auto simp add: boxlite_exec_def do_exec_def Let_def split: sum.splits)
  then show ?thesis
    using getOrCreateBox_unreleased [OF g] by (auto simp add: unreleased_exec)
qed

lemma boxlite_stop_unreleased:
  "unreleased (trace (snd (snd (boxlite_stop w (p, s)))))
     - set_option (box (fst (snd (boxlite_stop w (p, s)))))
   \<subseteq> unreleased (trace s) - set_option (box p)"
  by (cases "box p") (auto simp add: boxlite_stop_def unreleased_stop)

lemma holds_unreleased_card:
  "holds_unreleased st \<Longrightarrow> card (unreleased (trace (snd st))) \<le> 1"
proof -
  assume "holds_unreleased st"
  then have "card (unreleased (trace (snd st))) \<le> card (set_option (box (fst st)))"
    by (simp add: holds_unreleased_def card_mono)
  also have "\<dots> \<le> 1" by (cases "box (fst st)") simp_all
  finally show ?thesis .
qed

text \<open>As long as no \<open>stop()\<close> has thrown, the boxes not released are the live ones.\<close>

lemma stopped_stop_called:
  "\<forall>b. BoxStopThrew b \<notin> set tr \<Longrightarrow> stopped tr = stop_called tr"
  by (induction tr rule: stop_called.induct) auto

lemma live_unreleased: "\<forall>b. BoxStopThrew b \<notin> set tr \<Longrightarrow> live tr = unreleased tr"
  by (simp add: live_def unreleased_def stopped_stop_called)

lemma create_options_volumes:
  "bo_volumes (create_options p img) = Some (volumes p)" "bo_image (create_options p img) = img"
  by (simp_all add: create_options_def)

text \<open>
  A \<open>runScript\<close> that returns a result has called \<open>stop()\<close> on the box it held and then
  constructed a box with \<open>workDir\<close> mounted, which it holds from then on.
\<close>

lemma runScript_recreates:
  assumes "fst (boxlite_runScript h w fp dir options (p, s)) = Inr res"
  shows "\<exists>opts.
      prefix (trace s @ held_stop w (p, s)
                @ [NewBox (length (trace s @ held_stop w (p, s))) opts])
        (trace (snd (snd (boxlite_runScript h w fp dir options (p, s)))))
      \<and> bo_volumes opts = Some [\<lparr>hostPath = dir, guestPath = dir, readOnly = Some False\<rparr>]
      \<and> bo_image opts = fst (boxlite_runtime (toLowerCase (p_extname (path h) fp)))
      \<and> box (fst (snd (boxlite_runScript h w fp dir options (p, s))))
          = Some (length (trace s @ held_stop w (p, s)))"
proof -
  let ?m = "[\<lparr>hostPath = dir, guestPath = dir, readOnly = Some False\<rparr>]"
  let ?hs = "held_stop w (p, s)"
  obtain img runtime p2 s2 gr p3 s3 where
    r: "restart_box w (setVolumes ?m p, s) = (p2, s2)"
    and g: "getOrCreateBox w img (p2, s2) = (gr, p3, s3)"
    and rt: "boxlite_runtime (toLowerCase (p_extname (path h) fp)) = (img, runtime)"
    and eq: "boxlite_runScript h w fp dir options (p, s) =
       (case gr of
          Inl e \<Rightarrow> (Inl e, p3, s3)
        | Inr b \<Rightarrow> (fst (run_in_box h w b dir runtime fp options s3), p3,
                    snd (run_in_box h w b dir runtime fp options s3)))"
    by (rule runScript_split)
  have p2: "box p2 = None" "volumes p2 = ?m"
    and s2: "trace s2 = trace s @ ?hs"
    using r by (auto simp add: restart_box_cases held_stop_def setVolumes_def split: option.splits)
  obtain b where gr: "gr = Inr b"
    using eq assms by (cases gr) auto
  have c: "create_box w img (p2, s2) = (Inr b, p3, s3)"
    using g p2(1) gr by (simp add: getOrCreateBox_def)
  have s3: "trace s3 = trace s2 @ [NewBox (length (trace s2)) (create_options p2 img),
                                    BoxExec (length (trace s2)) [''echo'', ''Box ready'']]"
    and p3: "box p3 = Some (length (trace s2))"
    using create_box_cases [OF c] by auto
  have t: "trace (snd (snd (boxlite_runScript h w fp dir options (p, s))))
             = trace (snd (run_in_box h w b dir runtime fp options s3))"
    and f: "fst (snd (boxlite_runScript h w fp dir options (p, s))) = p3"
    using eq gr by simp_all
  have "prefix (trace s @ ?hs @ [NewBox (length (trace s @ ?hs)) (create_options p2 img)])
          (trace s3)"
    using s3 s2 by (simp add: prefix_def)
  then have pre: "prefix (trace s @ ?hs @ [NewBox (length (trace s @ ?hs)) (create_options p2 img)])
          (trace (snd (snd (boxlite_runScript h w fp dir options (p, s)))))"
    using t run_in_box_observed(1) [of s3 h w b dir runtime fp options] prefix_order.trans
    by fastforce
  show ?thesis
    using pre p2(2) p3 s2 f rt
    by (intro exI [of _ "create_options p2 img"]) (simp add: create_options_volumes)
qed

lemma isAvailable_box: "box (fst (snd (boxlite_isAvailable h w st))) = box (fst st)"
  by (simp add: boxlite_isAvailable_eq)

lemma init_box: "box (fst (snd (boxlite_init h w cfg st))) = box (fst st)"
  by (simp add: boxlite_init_def boxlite_isAvailable_eq Let_def split: prod.splits option.splits)

text \<open>
  C9, as amended. The provider holds at most one box, and it constructs no box while
  it holds one on which it has not called \<open>stop()\<close>. In the terms of the trace: after
  \<open>getOrCreateBox\<close>, \<open>exec\<close>, \<open>runScript\<close> and \<open>stop\<close>, every box that is constructed, is
  not the one held, and has had no call of \<open>stop()\<close>, was such a box already before the
  call; so when the provider holds every such box before the call, it does so after it,
  and there is at most one. \<open>isAvailable\<close> and \<open>init\<close> leave the held box alone. When
  \<open>getOrCreateBox\<close> is asked for another image than the one of the box it holds, the
  first thing it does is to call \<open>stop()\<close> on that box, before it constructs any;
  \<open>runScript\<close> calls \<open>stop()\<close> on the box it holds before anything else, and when it
  returns a result, the next thing it did was to construct the box that it holds
  afterwards, with \<open>workDir\<close> mounted at the same path and the image of the runtime.
  After \<open>stop\<close> the provider holds no box. A \<open>stop()\<close> that throws counts as called: the
  box may still be live; as long as no \<open>stop()\<close> has thrown, the boxes without a call of
  \<open>stop()\<close> are exactly the live ones.
\<close>

theorem provider_owns_one_box:
  "unreleased (trace (snd (snd (getOrCreateBox w img st))))
       - set_option (box (fst (snd (getOrCreateBox w img st))))
     \<subseteq> unreleased (trace (snd st)) - set_option (box (fst st))
   \<and> unreleased (trace (snd (snd (boxlite_exec w options st))))
       - set_option (box (fst (snd (boxlite_exec w options st))))
     \<subseteq> unreleased (trace (snd st)) - set_option (box (fst st))
   \<and> unreleased (trace (snd (snd (boxlite_runScript h w fp dir sopts st))))
       - set_option (box (fst (snd (boxlite_runScript h w fp dir sopts st))))
     \<subseteq> unreleased (trace (snd st)) - set_option (box (fst st))
   \<and> unreleased (trace (snd (snd (boxlite_stop w st))))
       - set_option (box (fst (snd (boxlite_stop w st))))
     \<subseteq> unreleased (trace (snd st)) - set_option (box (fst st))
   \<and> (holds_unreleased st \<longrightarrow>
        card (unreleased (trace (snd st))) \<le> 1
        \<and> holds_unreleased (snd (getOrCreateBox w img st))
        \<and> holds_unreleased (snd (boxlite_exec w options st))
        \<and> holds_unreleased (snd (boxlite_runScript h w fp dir sopts st))
        \<and> holds_unreleased (snd (boxlite_stop w st)))
   \<and> box (fst (snd (boxlite_isAvailable h w st))) = box (fst st)
   \<and> box (fst (snd (boxlite_init h w cfg st))) = box (fst st)
   \<and> box (fst (snd (boxlite_stop w st))) = None
   \<and> (box (fst st) = Some b \<and> currentImage (fst st) \<noteq> img \<longrightarrow>
        prefix (trace (snd st) @ [stop_effect w (length (trace (snd st))) b])
          (trace (snd (snd (getOrCreateBox w img st)))))
   \<and> (box (fst st) = Some b \<longrightarrow>
        prefix (trace (snd st) @ [stop_effect w (length (trace (snd st))) b])
          (trace (snd (snd (boxlite_runScript h w fp dir sopts st)))))
   \<and> (fst (boxlite_runScript h w fp dir sopts st) = Inr res \<longrightarrow>
        (\<exists>opts.
           prefix (trace (snd st) @ held_stop w st
                     @ [NewBox (length (trace (snd st) @ held_stop w st)) opts])
             (trace (snd (snd (boxlite_runScript h w fp dir sopts st))))
           \<and> bo_volumes opts = Some [\<lparr>hostPath = dir, guestPath = dir, readOnly = Some False\<rparr>]
           \<and> bo_image opts = fst (boxlite_runtime (toLowerCase (p_extname (path h) fp)))
           \<and> box (fst (snd (boxlite_runScript h w fp dir sopts st)))
               = Some (length (trace (snd st) @ held_stop w st))))
   \<and> ((\<forall>x. BoxStopThrew x \<notin> set tr) \<longrightarrow> live tr = unreleased tr)"
proof -
  obtain p s where st: "st = (p, s)" by (cases st)
  obtain gr p1 s1 where g: "getOrCreateBox w img (p, s) = (gr, p1, s1)"
    by (cases "getOrCreateBox w img (p, s)") auto
  have a: "unreleased (trace (snd (snd (getOrCreateBox w img st))))
       - set_option (box (fst (snd (getOrCreateBox w img st))))
     \<subseteq> unreleased (trace (snd st)) - set_option (box (fst st))"
    using getOrCreateBox_unreleased [OF g] by (simp add: st g)
  have b: "unreleased (trace (snd (snd (boxlite_exec w options st))))
       - set_option (box (fst (snd (boxlite_exec w options st))))
     \<subseteq> unreleased (trace (snd st)) - set_option (box (fst st))"
    using boxlite_exec_unreleased [of w options p s] by (simp add: st)
  have c: "unreleased (trace (snd (snd (boxlite_runScript h w fp dir sopts st))))
       - set_option (box (fst (snd (boxlite_runScript h w fp dir sopts st))))
     \<subseteq> unreleased (trace (snd st)) - set_option (box (fst st))"
    using runScript_unreleased [of h w fp dir sopts p s] by (simp add: st)
  have d: "unreleased (trace (snd (snd (boxlite_stop w st))))
       - set_option (box (fst (snd (boxlite_stop w st))))
     \<subseteq> unreleased (trace (snd st)) - set_option (box (fst st))"
    using boxlite_stop_unreleased [of w p s] by (simp add: st)
  have keep: "holds_unreleased st' "
    if "holds_unreleased st"
      and "unreleased (trace (snd st')) - set_option (box (fst st'))
             \<subseteq> unreleased (trace (snd st)) - set_option (box (fst st))" for st'
    using that by (auto simp add: holds_unreleased_def)
  have e: "box (fst (snd (boxlite_stop w st))) = None"
    by (cases "box (fst st)") (simp_all add: boxlite_stop_def)
  have f: "prefix (trace (snd st) @ [stop_effect w (length (trace (snd st))) b])
             (trace (snd (snd (getOrCreateBox w img st))))"
    if "box (fst st) = Some b" "currentImage (fst st) \<noteq> img"
    using getOrCreateBox_observed(3) [OF g, of b] that by (simp add: st g)
  have k: "prefix (trace (snd st) @ [stop_effect w (length (trace (snd st))) b])
          (trace (snd (snd (boxlite_runScript h w fp dir sopts st))))"
    if "box (fst st) = Some b"
    using runScript_stops_first [where p = p and b = b and s = s and h = h and w = w
        and fp = fp and dir = dir and options = sopts] that
    by (simp add: st)
  have m: "\<exists>opts.
           prefix (trace (snd st) @ held_stop w st
                     @ [NewBox (length (trace (snd st) @ held_stop w st)) opts])
             (trace (snd (snd (boxlite_runScript h w fp dir sopts st))))
           \<and> bo_volumes opts = Some [\<lparr>hostPath = dir, guestPath = dir, readOnly = Some False\<rparr>]
           \<and> bo_image opts = fst (boxlite_runtime (toLowerCase (p_extname (path h) fp)))
           \<and> box (fst (snd (boxlite_runScript h w fp dir sopts st)))
               = Some (length (trace (snd st) @ held_stop w st))"
    if "fst (boxlite_runScript h w fp dir sopts st) = Inr res"
    using runScript_recreates [of h w fp dir sopts p s res] that by (simp add: st)
  have n: "live tr = unreleased tr" if "\<forall>x. BoxStopThrew x \<notin> set tr"
    using that by (rule live_unreleased)
  have o: "box (fst (snd (boxlite_isAvailable h w st))) = box (fst st)"
    by (rule isAvailable_box)
  have o': "box (fst (snd (boxlite_init h w cfg st))) = box (fst st)"
    by (rule init_box)
  show ?thesis
    using a b c d e f k m n o o' keep [OF _ a] keep [OF _ b] keep [OF _ c] keep [OF _ d]
      holds_unreleased_card [of st]
    by blast
qed

lemma running_box_py:
  "fst (boxlite_runScript (bare_host sleeper) quiet_world ''/w/a.py'' ''/w'' None running_box)
     = Inr \<lparr>stdout = [], stderr = [], exitCode = 0, duration = 0\<rparr>"
  by (simp add: boxlite_runScript_def bare_host_def posix_path_def posix_extname_def
      posix_basename_def strip_slashes_def toLowerCase_def lower_char_def boxlite_runtime_def
      setVolumes_def restart_box_def running_box_def new_BoxLiteProvider_def getOrCreateBox_def
      create_box_def loaded_module_def boxlite_module_initial_def do_new_def do_exec_def
      do_stop_def quiet_world_def run_in_box_def install_packages_def packages_of_def
      result_of_def Let_def)

theorem provider_owns_one_box_witness:
  "holds_unreleased running_box
   \<and> holds_unreleased (snd (getOrCreateBox quiet_world ''python:3.11-slim'' running_box))
   \<and> prefix (trace (snd running_box) @ [BoxStop 0])
       (trace (snd (snd (getOrCreateBox quiet_world ''python:3.11-slim'' running_box))))
   \<and> prefix (trace (snd running_box) @ [BoxStop 0])
       (trace (snd (snd (boxlite_runScript (bare_host sleeper) quiet_world ''/w/a.py'' ''/w'' None
          running_box))))
   \<and> (\<exists>opts.
        prefix (trace (snd running_box) @ [BoxStop 0, NewBox 3 opts])
          (trace (snd (snd (boxlite_runScript (bare_host sleeper) quiet_world ''/w/a.py'' ''/w''
             None running_box))))
        \<and> bo_volumes opts = Some [\<lparr>hostPath = ''/w'', guestPath = ''/w'', readOnly = Some False\<rparr>]
        \<and> bo_image opts = ''python:3.11-slim'')
   \<and> box (fst (snd (boxlite_runScript (bare_host sleeper) quiet_world ''/w/a.py'' ''/w'' None
        running_box))) = Some 3
   \<and> holds_unreleased (snd (boxlite_stop quiet_world running_box))
   \<and> live (trace (snd running_box)) = unreleased (trace (snd running_box))"
proof -
  have o: "holds_unreleased running_box"
    by (simp add: holds_unreleased_def running_box_def unreleased_def loaded_module_def)
  have bx: "box (fst running_box) = Some 0" "currentImage (fst running_box) \<noteq> ''python:3.11-slim''"
    by (simp_all add: running_box_def new_BoxLiteProvider_def)
  have se: "stop_effect quiet_world (length (trace (snd running_box))) 0 = BoxStop 0"
    by (simp add: stop_effect_def quiet_world_def)
  have hs: "held_stop quiet_world running_box = [BoxStop 0]"
    using bx(1) se by (simp add: held_stop_def)
  have len: "length (trace (snd running_box) @ [BoxStop 0]) = 3"
    by (simp add: running_box_def)
  have img: "fst (boxlite_runtime (toLowerCase (p_extname (path (bare_host sleeper)) ''/w/a.py'')))
               = ''python:3.11-slim''"
    by (simp add: bare_host_def posix_path_def posix_extname_def posix_basename_def
        strip_slashes_def toLowerCase_def lower_char_def boxlite_runtime_def Let_def)
  have nt: "\<forall>x. BoxStopThrew x \<notin> set (trace (snd running_box))"
    by (simp add: running_box_def)
  show ?thesis
    using provider_owns_one_box [where st = running_box and w = quiet_world
        and img = "''python:3.11-slim''" and h = "bare_host sleeper" and fp = "''/w/a.py''"
        and dir = "''/w''" and sopts = None and b = 0
        and res = "\<lparr>stdout = [], stderr = [], exitCode = 0, duration = 0\<rparr>"
        and tr = "trace (snd running_box)" and options = "sleep_options None"]
      o bx se hs len img nt running_box_py
    by (simp; blast)
qed

text \<open>
  The claim as it is written fails when \<open>box.stop()\<close> throws: the error is caught and
  the provider goes on to construct the next box. Two calls of \<open>exec\<close> with different
  images, in a runtime whose \<open>stop()\<close> throws, leave two live boxes behind, the first
  one no longer held by the provider.
\<close>

theorem two_live_boxes_counterexample:
  "live (trace (snd (snd
      (boxlite_exec stop_throws_world ((sleep_options None)\<lparr>image := Some ''python:3.11-slim''\<rparr>)
        (snd (boxlite_exec stop_throws_world (sleep_options None)
           (new_BoxLiteProvider, loaded_module))))))) = {0, 4}
   \<and> box (fst (snd
      (boxlite_exec stop_throws_world ((sleep_options None)\<lparr>image := Some ''python:3.11-slim''\<rparr>)
        (snd (boxlite_exec stop_throws_world (sleep_options None)
           (new_BoxLiteProvider, loaded_module)))))) = Some 4"
  by (simp add: boxlite_exec_def getOrCreateBox_def create_box_def targetImage_def
      sleep_options_def new_BoxLiteProvider_def loaded_module_def boxlite_module_initial_def
      do_new_def do_exec_def do_stop_def stop_effect_def stop_throws_world_def quiet_world_def
      or_str_def Let_def live_def eval_nat_numeral)

section \<open>Copying files back\<close>

lemma posix_basename_suffix: "\<not> endsWith s ''/'' \<Longrightarrow> endsWith s (posix_basename s)"
proof -
  assume a: "\<not> endsWith s ''/''"
  have "strip_slashes s = s"
  proof (cases "rev s")
    case Nil
    then show ?thesis by (simp add: strip_slashes_def)
  next
    case (Cons c cs)
    then have "s = rev cs @ [c]" by (metis rev.simps(2) rev_rev_ident)
    with a have "c \<noteq> CHR ''/''" by (auto simp add: endsWith_def suffix_def)
    with Cons show ?thesis by (simp add: strip_slashes_def)
  qed
  then have "posix_basename s = rev (takeWhile (\<lambda>c. c \<noteq> CHR ''/'') (rev s))"
    by (simp add: posix_basename_def)
  moreover have "s = rev (dropWhile (\<lambda>c. c \<noteq> CHR ''/'') (rev s))
                     @ rev (takeWhile (\<lambda>c. c \<noteq> CHR ''/'') (rev s))"
    by (metis rev_append rev_rev_ident takeWhile_dropWhile_id)
  ultimately show ?thesis
    by (metis endsWith_def suffixI)
qed


lemma listing_run:
  "written (trace (snd (snd (boxlite_runScript (bare_host sleeper) listing_world ''/w/a.py'' ''/w''
      None (new_BoxLiteProvider, loaded_module))))) = [''/w/out'']"
  by (simp add: boxlite_runScript_def bare_host_def posix_path_def posix_extname_def
      posix_basename_def strip_slashes_def toLowerCase_def lower_char_def boxlite_runtime_def
      setVolumes_def restart_box_def new_BoxLiteProvider_def getOrCreateBox_def create_box_def
      loaded_module_def boxlite_module_initial_def do_new_def do_exec_def listing_world_def
      quiet_world_def run_in_box_def install_packages_def packages_of_def argsStr_of_def
      script_command_def list_command_def base64_command_def dq_def sync_back_def
      files_to_sync_def trim_def is_space_def startsWith_def endsWith_def sync_one_def
      posix_dirname_def Let_def written_append suffix_to_prefix)



section \<open>The runtime of a script\<close>

lemma after_last_dot_suffix:
  assumes "endsWith fp (CHR ''.'' # x)" and "CHR ''.'' \<notin> set x"
  shows "after_last_dot fp = x"
proof -
  obtain pre where "fp = pre @ CHR ''.'' # x"
    using assms(1) by (auto simp add: endsWith_def suffix_def)
  then have "rev fp = rev x @ CHR ''.'' # rev pre" by simp
  then have "takeWhile (\<lambda>c. c \<noteq> CHR ''.'') (rev fp) = rev x"
    using assms(2) by (auto simp add: takeWhile_tail)
  then show ?thesis by (simp add: after_last_dot_def)
qed

lemma detectRuntime_suffix:
  "endsWith fp ''.py'' \<Longrightarrow> fst (detectRuntime fp) = ''python''"
  "endsWith fp ''.js'' \<Longrightarrow> fst (detectRuntime fp) = ''node''"
  "endsWith fp ''.mjs'' \<Longrightarrow> fst (detectRuntime fp) = ''node''"
  "endsWith fp ''.ts'' \<Longrightarrow> fst (detectRuntime fp) = ''bun''"
  "endsWith fp ''.mts'' \<Longrightarrow> fst (detectRuntime fp) = ''bun''"
  using after_last_dot_suffix [of fp "''py''"] after_last_dot_suffix [of fp "''js''"]
    after_last_dot_suffix [of fp "''mjs''"] after_last_dot_suffix [of fp "''ts''"]
    after_last_dot_suffix [of fp "''mts''"]
  by (simp_all add: detectRuntime_def toLowerCase_def lower_char_def)

lemma install_packages_trace:
  "trace (snd (install_packages w b dir runtime pkgs s)) =
     trace s @ (if pkgs \<noteq> [] \<and> runtime \<noteq> ''python''
                then [BoxExec b [''sh'', ''-c'', install_command dir pkgs]] else [])"
  using install_packages_cases [of w b dir runtime pkgs s
      "fst (install_packages w b dir runtime pkgs s)" "snd (install_packages w b dir runtime pkgs s)"]
  by auto

lemma run_in_box_ran:
  assumes "fst (run_in_box h w b dir runtime fp options s) = Inr r"
  shows "prefix (trace s
                 @ (if packages_of options \<noteq> [] \<and> runtime \<noteq> ''python''
                    then [BoxExec b [''sh'', ''-c'', install_command dir (packages_of options)]]
                    else [])
                 @ [BoxExec b [''sh'', ''-c'', script_command dir runtime fp (argsStr_of options)]])
           (trace (snd (run_in_box h w b dir runtime fp options s)))"
proof -
  let ?i = "install_packages w b dir runtime (packages_of options) s"
  let ?cmd = "[''sh'', ''-c'', script_command dir runtime fp (argsStr_of options)]"
  have eq: "snd (run_in_box h w b dir runtime fp options s)
          = sync_back h w b dir (p_basename (path h) fp) (snd (do_exec w b ?cmd (snd ?i)))"
    using assms
    by (auto simp add: run_in_box_def Let_def split: prod.splits option.splits sum.splits)
  have t: "trace (snd (do_exec w b ?cmd (snd ?i))) =
      trace s
      @ (if packages_of options \<noteq> [] \<and> runtime \<noteq> ''python''
         then [BoxExec b [''sh'', ''-c'', install_command dir (packages_of options)]] else [])
      @ [BoxExec b ?cmd]"
    by (simp only: trace_do_exec install_packages_trace append_assoc)
  have p: "prefix (trace (snd (do_exec w b ?cmd (snd ?i))))
             (trace (sync_back h w b dir (p_basename (path h) fp) (snd (do_exec w b ?cmd (snd ?i)))))"
    by (rule sync_back_observed(1))
  show ?thesis
    unfolding eq using p unfolding t .
qed

lemma runScript_ran:
  assumes "fst (boxlite_runScript h w fp dir sopts st) = Inr r"
  shows "\<exists>b pre. prefix
           (pre @ (if packages_of sopts \<noteq> []
                      \<and> snd (boxlite_runtime (toLowerCase (p_extname (path h) fp))) \<noteq> ''python''
                   then [BoxExec b [''sh'', ''-c'', install_command dir (packages_of sopts)]]
                   else [])
                @ [BoxExec b [''sh'', ''-c'',
                     script_command dir (snd (boxlite_runtime (toLowerCase (p_extname (path h) fp))))
                       fp (argsStr_of sopts)]])
           (trace (snd (snd (boxlite_runScript h w fp dir sopts st))))"
proof -
  obtain p s where st: "st = (p, s)" by (cases st)
  obtain img runtime p2 s2 gr p3 s3 where
    "restart_box w (setVolumes [\<lparr>hostPath = dir, guestPath = dir, readOnly = Some False\<rparr>] p, s)
       = (p2, s2)"
    and "getOrCreateBox w img (p2, s2) = (gr, p3, s3)"
    and rt: "boxlite_runtime (toLowerCase (p_extname (path h) fp)) = (img, runtime)"
    and eq: "boxlite_runScript h w fp dir sopts (p, s) =
       (case gr of
          Inl e \<Rightarrow> (Inl e, p3, s3)
        | Inr b \<Rightarrow> (fst (run_in_box h w b dir runtime fp sopts s3), p3,
                    snd (run_in_box h w b dir runtime fp sopts s3)))"
    by (rule runScript_split)
  from assms eq st obtain b where b: "gr = Inr b" by (cases gr) auto
  with assms eq st have "fst (run_in_box h w b dir runtime fp sopts s3) = Inr r" by simp
  from run_in_box_ran [OF this]
  have "prefix
           (trace s3 @ (if packages_of sopts \<noteq> [] \<and> runtime \<noteq> ''python''
                   then [BoxExec b [''sh'', ''-c'', install_command dir (packages_of sopts)]]
                   else [])
                @ [BoxExec b [''sh'', ''-c'', script_command dir runtime fp (argsStr_of sopts)]])
           (trace (snd (snd (boxlite_runScript h w fp dir sopts st))))"
    by (simp only: eq st b sum.case snd_conv)
  then show ?thesis using rt by (metis snd_conv)
qed


lemmas run_script_defs =
  boxlite_runScript_def bare_host_def posix_path_def posix_extname_def
  posix_basename_def strip_slashes_def toLowerCase_def lower_char_def boxlite_runtime_def
  setVolumes_def restart_box_def new_BoxLiteProvider_def getOrCreateBox_def create_box_def
  loaded_module_def boxlite_module_initial_def do_new_def do_exec_def
  quiet_world_def run_in_box_def install_packages_def packages_of_def argsStr_of_def
  script_options_def sync_back_def files_to_sync_def trim_def is_space_def startsWith_def
  endsWith_def sync_one_def posix_dirname_def Let_def suffix_to_prefix result_of_def

lemma quiet_run_py:
  "fst (boxlite_runScript (bare_host sleeper) quiet_world ''/w/a.py'' ''/w''
          (script_options [''requests'']) (new_BoxLiteProvider, loaded_module))
     = Inr \<lparr>stdout = [], stderr = [], exitCode = 0, duration = 0\<rparr>"
  "executed (trace (snd (snd (boxlite_runScript (bare_host sleeper) quiet_world ''/w/a.py'' ''/w''
          (script_options [''requests'']) (new_BoxLiteProvider, loaded_module)))))
     = [[''echo'', ''Box ready''],
        [''sh'', ''-c'', script_command ''/w'' ''python'' ''/w/a.py'' []],
        [''sh'', ''-c'', list_command ''/w'']]"
  by (simp_all add: run_script_defs)

lemma install_fails_run_js:
  "fst (boxlite_runScript (bare_host sleeper) install_fails_world ''/w/a.js'' ''/w''
          (script_options [''left-pad'']) (new_BoxLiteProvider, loaded_module))
     = Inr \<lparr>stdout = [], stderr = [], exitCode = 0, duration = 0\<rparr>"
  "executed (trace (snd (snd (boxlite_runScript (bare_host sleeper) install_fails_world ''/w/a.js''
          ''/w'' (script_options [''left-pad'']) (new_BoxLiteProvider, loaded_module)))))
     = [[''echo'', ''Box ready''],
        [''sh'', ''-c'', install_command ''/w'' [''left-pad'']],
        [''sh'', ''-c'', script_command ''/w'' ''node'' ''/w/a.js'' []],
        [''sh'', ''-c'', list_command ''/w'']]"
  by (simp_all add: run_script_defs install_fails_world_def install_command_def script_command_def
      list_command_def dq_def)

lemma ext_py: "toLowerCase (p_extname (path (bare_host c)) ''/w/a.py'') = ''.py''"
  by (simp add: bare_host_def posix_path_def posix_extname_def posix_basename_def
      strip_slashes_def toLowerCase_def lower_char_def)

lemma ext_ts: "toLowerCase (p_extname (path (bare_host c)) ''/w/a.ts'') = ''.ts''"
  by (simp add: bare_host_def posix_path_def posix_extname_def posix_basename_def
      strip_slashes_def toLowerCase_def lower_char_def)

lemma ext_js: "toLowerCase (p_extname (path (bare_host c)) ''/w/a.js'') = ''.js''"
  by (simp add: bare_host_def posix_path_def posix_extname_def posix_basename_def
      strip_slashes_def toLowerCase_def lower_char_def)


lemma runScript_ran_script:
  assumes "fst (boxlite_runScript h w fp dir sopts st) = Inr r"
  shows "\<exists>b. BoxExec b [''sh'', ''-c'',
                 script_command dir (snd (boxlite_runtime (toLowerCase (p_extname (path h) fp))))
                   fp (argsStr_of sopts)]
              \<in> set (trace (snd (snd (boxlite_runScript h w fp dir sopts st))))"
proof -
  from runScript_ran [OF assms] obtain b pre where
    "prefix
           (pre @ (if packages_of sopts \<noteq> []
                      \<and> snd (boxlite_runtime (toLowerCase (p_extname (path h) fp))) \<noteq> ''python''
                   then [BoxExec b [''sh'', ''-c'', install_command dir (packages_of sopts)]]
                   else [])
                @ [BoxExec b [''sh'', ''-c'',
                     script_command dir (snd (boxlite_runtime (toLowerCase (p_extname (path h) fp))))
                       fp (argsStr_of sopts)]])
           (trace (snd (snd (boxlite_runScript h w fp dir sopts st))))"
    by blast
  from set_mono_prefix [OF this] show ?thesis by auto
qed

lemma runScript_ran_install:
  assumes "fst (boxlite_runScript h w fp dir sopts st) = Inr r"
    and "packages_of sopts \<noteq> []"
    and "snd (boxlite_runtime (toLowerCase (p_extname (path h) fp))) \<noteq> ''python''"
  shows "\<exists>b. sublist
           [BoxExec b [''sh'', ''-c'', install_command dir (packages_of sopts)],
            BoxExec b [''sh'', ''-c'',
              script_command dir (snd (boxlite_runtime (toLowerCase (p_extname (path h) fp))))
                fp (argsStr_of sopts)]]
           (trace (snd (snd (boxlite_runScript h w fp dir sopts st))))"
proof -
  from runScript_ran [OF assms(1)] assms(2,3) obtain b pre where
    "prefix
           (pre @ [BoxExec b [''sh'', ''-c'', install_command dir (packages_of sopts)],
                   BoxExec b [''sh'', ''-c'',
                     script_command dir (snd (boxlite_runtime (toLowerCase (p_extname (path h) fp))))
                       fp (argsStr_of sopts)]])
           (trace (snd (snd (boxlite_runScript h w fp dir sopts st))))"
    by auto
  then show ?thesis
    by (auto simp add: prefix_def sublist_def)
qed

lemma runScript_python_ignores_packages:
  assumes "snd (boxlite_runtime (toLowerCase (p_extname (path h) fp))) = ''python''"
  shows "boxlite_runScript h w fp dir sopts st =
         boxlite_runScript h w fp dir (map_option (\<lambda>opt. opt\<lparr>packages := None\<rparr>) sopts) st"
proof -
  have a: "argsStr_of (map_option (\<lambda>opt. opt\<lparr>packages := None\<rparr>) sopts) = argsStr_of sopts"
    by (cases sopts) (simp_all add: argsStr_of_def)
  have rb: "run_in_box h w b dir ''python'' fp sopts s =
        run_in_box h w b dir ''python'' fp (map_option (\<lambda>opt. opt\<lparr>packages := None\<rparr>) sopts) s"
    for b s
    by (simp add: run_in_box_def install_packages_def a)
  show ?thesis
    using assms
    by (cases "boxlite_runtime (toLowerCase (p_extname (path h) fp))")
       (auto simp add: boxlite_runScript_def Let_def rb split: prod.splits sum.splits)
qed


lemma codex_ts_request:
  "spawned (codex_runScript (bare_host sleeper) codex_installed ''/w/a.ts'' ''/w'' None) =
     Some \<lparr>sp_file = ''/usr/local/bin/codex'',
           sp_args = [''sandbox'', ''linux'', ''--full-auto'', ''--'', ''npx'', ''tsx'', ''/w/a.ts''],
           sp_cwd = ''/w'', sp_env = Map.empty\<rparr>"
  by (simp add: codex_runScript_def ext_ts codex_installed_def codex_runtime_def packages_of_def
      args_of_def sandboxSubcommand_def Let_def)
     (simp add: bare_host_def)


section \<open>Installing packages\<close>

lemma codex_runScript_install:
  assumes "codexPath c = Some cp" and "cp \<noteq> []" and "packages_of sopts \<noteq> []"
  shows "installed (codex_runScript h c fp dir sopts) =
           [codex_install_command
              (snd (snd (codex_runtime (toLowerCase (p_extname (path h) fp)) fp)))
              (packages_of sopts)]"
    and "execSync h (codex_install_command
              (snd (snd (codex_runtime (toLowerCase (p_extname (path h) fp)) fp)))
              (packages_of sopts)) (Some dir) = Inl e \<Longrightarrow>
         spawned (codex_runScript h c fp dir sopts) = None
         \<and> returned (codex_runScript h c fp dir sopts) =
             Resolved \<lparr>stdout = [], stderr = ''Failed to install packages: '' @ error_text e,
                       exitCode = 1, duration = 0\<rparr>"
    and "execSync h (codex_install_command
              (snd (snd (codex_runtime (toLowerCase (p_extname (path h) fp)) fp)))
              (packages_of sopts)) (Some dir) = Inr out \<Longrightarrow>
         spawned (codex_runScript h c fp dir sopts) \<noteq> None"
proof -
  obtain runtime rargs isPython where
    rt: "codex_runtime (toLowerCase (p_extname (path h) fp)) fp = (runtime, rargs, isPython)"
    by (cases "codex_runtime (toLowerCase (p_extname (path h) fp)) fp") auto
  show "installed (codex_runScript h c fp dir sopts) =
           [codex_install_command
              (snd (snd (codex_runtime (toLowerCase (p_extname (path h) fp)) fp)))
              (packages_of sopts)]"
    using assms rt
    by (cases "execSync h (codex_install_command isPython (packages_of sopts)) (Some dir)")
       (simp_all add: codex_runScript_def Let_def)
  show "spawned (codex_runScript h c fp dir sopts) = None
         \<and> returned (codex_runScript h c fp dir sopts) =
             Resolved \<lparr>stdout = [], stderr = ''Failed to install packages: '' @ error_text e,
                       exitCode = 1, duration = 0\<rparr>"
    if "execSync h (codex_install_command
              (snd (snd (codex_runtime (toLowerCase (p_extname (path h) fp)) fp)))
              (packages_of sopts)) (Some dir) = Inl e"
    using assms rt that by (simp add: codex_runScript_def Let_def)
  show "spawned (codex_runScript h c fp dir sopts) \<noteq> None"
    if "execSync h (codex_install_command
              (snd (snd (codex_runtime (toLowerCase (p_extname (path h) fp)) fp)))
              (packages_of sopts)) (Some dir) = Inr out"
    using assms rt that by (simp add: codex_runScript_def Let_def)
qed


lemma pip_fails:
  "execSync (bare_host c) cmd dir = Inl (new_Error ''Command failed'')"
  by (simp add: bare_host_def)



end
